theory Spec2Isabelle
  imports Main "HOL-Library.Product_Lexorder" "HOL-Library.Multiset"
begin

section \<open>JavaScript values used by the pages\<close>

text \<open>
  A JavaScript string is a sequence of UTF-16 code units; a code unit is modelled as a
  natural number. \<open>js\<close> turns an ASCII literal into such a string, so that
  \<open>js ''1-5''\<close> stands for the TypeScript literal \<^verbatim>\<open>'1-5'\<close>.
\<close>

type_synonym jsstring = "nat list"

definition js :: "string \<Rightarrow> jsstring" where
  "js s = map of_char s"

text \<open>
  Numbers that the pages handle (identifiers, priorities, hours, minutes, intervals) are
  integers; \<open>NaN\<close> and \<open>undefined\<close> are the value \<open>None\<close> of an option.
  \<open>Number.prototype.toString\<close> on an integer: an optional minus sign and the decimal
  digits. JavaScript prints an exponent from \<open>10^21\<close> on, so the digits here are those of
  the code below that bound, in particular on the safe integers (\<open>isSafeInteger\<close> below).
\<close>

fun digits :: "nat \<Rightarrow> jsstring" where
  "digits n = (if n < 10 then [48 + n] else digits (n div 10) @ [48 + n mod 10])"

definition toString :: "int \<Rightarrow> jsstring" where
  "toString n = (if n < 0 then 45 # digits (nat (- n)) else digits (nat n))"

text \<open>
  A value interpolated into a template literal: \<^verbatim>\<open>`${x}`\<close> prints \<open>NaN\<close> for a
  number that is not one.
\<close>

definition interpolate :: "int option \<Rightarrow> jsstring" where
  "interpolate x = (case x of None \<Rightarrow> js ''NaN'' | Some n \<Rightarrow> toString n)"

text \<open>
  The characters that \<^verbatim>\<open>\s\<close> matches in a regular expression, which are also the
  characters \<^verbatim>\<open>trim\<close> removes and \<^verbatim>\<open>parseInt\<close> skips: tab, line feed, vertical tab,
  form feed, carriage return, space, no-break space, U+1680, U+2000 to U+200A, U+2028,
  U+2029, U+202F, U+205F, U+3000 and U+FEFF.
\<close>

definition isSpace :: "nat \<Rightarrow> bool" where
  "isSpace c =
     (c = 9 \<or> c = 10 \<or> c = 11 \<or> c = 12 \<or> c = 13 \<or> c = 32 \<or> c = 160 \<or> c = 5760
      \<or> (8192 \<le> c \<and> c \<le> 8202) \<or> c = 8232 \<or> c = 8233 \<or> c = 8239 \<or> c = 8287
      \<or> c = 12288 \<or> c = 65279)"

definition trim :: "jsstring \<Rightarrow> jsstring" where
  "trim s = rev (dropWhile isSpace (rev (dropWhile isSpace s)))"

text \<open>
  \<^verbatim>\<open>s.split(/[...]+/)\<close> for a separator that is one or more characters of a class
  \<open>sep\<close>: the scan keeps the piece read so far in \<open>cur\<close>; at a separator character it
  closes the piece and skips the whole run of separators; at the end of the string it
  closes the last piece. A string that starts or ends with a separator gives an empty
  first or last piece, and the empty string gives one empty piece.
\<close>

function splitRe :: "(nat \<Rightarrow> bool) \<Rightarrow> jsstring \<Rightarrow> jsstring \<Rightarrow> jsstring list" where
  "splitRe sep cur [] = [cur]"
| "splitRe sep cur (c # cs) =
     (if sep c then cur # splitRe sep [] (dropWhile sep cs)
      else splitRe sep (cur @ [c]) cs)"
  by pat_completeness auto
termination
  by (relation "measure (\<lambda>(sep, cur, s). length s)")
     (auto simp: length_dropWhile_le less_Suc_eq_le)

text \<open>\<^verbatim>\<open>s.split(':')\<close>, a separator that is one character \<open>d\<close>.\<close>

fun splitOn :: "nat \<Rightarrow> jsstring \<Rightarrow> jsstring \<Rightarrow> jsstring list" where
  "splitOn d cur [] = [cur]"
| "splitOn d cur (c # cs) =
     (if c = d then cur # splitOn d [] cs else splitOn d (cur @ [c]) cs)"

text \<open>\<^verbatim>\<open>s.padStart(2, '0')\<close>\<close>

definition padStart2 :: "jsstring \<Rightarrow> jsstring" where
  "padStart2 s = replicate (2 - length s) 48 @ s"

text \<open>\<^verbatim>\<open>s.startsWith(p)\<close>\<close>

definition startsWith :: "jsstring \<Rightarrow> jsstring \<Rightarrow> bool" where
  "startsWith s p = (take (length p) s = p)"

text \<open>
  \<^verbatim>\<open>parseInt(s)\<close> with no radix: leading white space is skipped, one sign is read, a
  prefix \<^verbatim>\<open>0x\<close> or \<^verbatim>\<open>0X\<close> selects base sixteen, and the longest run of digits of the base is
  the value; whatever follows the digits is ignored, and no digit at all gives \<open>NaN\<close>.
  The value is exact here; JavaScript rounds it to a double, which is the same number
  below \<open>2^53\<close>.
\<close>

definition digitValue :: "nat \<Rightarrow> nat option" where
  "digitValue c =
     (if 48 \<le> c \<and> c \<le> 57 then Some (c - 48)
      else if 97 \<le> c \<and> c \<le> 102 then Some (c - 87)
      else if 65 \<le> c \<and> c \<le> 70 then Some (c - 55)
      else None)"

definition isDigitOf :: "nat \<Rightarrow> nat \<Rightarrow> bool" where
  "isDigitOf radix c = (case digitValue c of None \<Rightarrow> False | Some v \<Rightarrow> v < radix)"

definition digitsValue :: "nat \<Rightarrow> jsstring \<Rightarrow> nat" where
  "digitsValue radix ds = foldl (\<lambda>a c. a * radix + (case digitValue c of None \<Rightarrow> 0 | Some v \<Rightarrow> v)) 0 ds"

definition parseInt :: "jsstring \<Rightarrow> int option" where
  "parseInt s =
     (let t = dropWhile isSpace s;
          neg = (t \<noteq> [] \<and> hd t = 45);
          u = (if t \<noteq> [] \<and> (hd t = 45 \<or> hd t = 43) then tl t else t);
          hex = (startsWith u (js ''0x'') \<or> startsWith u (js ''0X''));
          radix = (if hex then 16 else 10);
          ds = takeWhile (isDigitOf radix) (if hex then drop 2 u else u)
      in if ds = [] then None
         else Some (if neg then - int (digitsValue radix ds) else int (digitsValue radix ds)))"

text \<open>
  \<^verbatim>\<open>Number.isSafeInteger(n)\<close>: the integers that a JavaScript number holds exactly. On them
  the exact values of \<open>parseInt\<close> and \<open>toString\<close> above are those of the code.
\<close>

definition isSafeInteger :: "int \<Rightarrow> bool" where
  "isSafeInteger n = (abs n < 2 ^ 53)"

text \<open>A string that is a decimal number: one or more of the digits 0 to 9.\<close>

definition allDigits :: "jsstring \<Rightarrow> bool" where
  "allDigits s = (s \<noteq> [] \<and> list_all (\<lambda>c. 48 \<le> c \<and> c \<le> 57) s)"

text \<open>The values \<^verbatim>\<open>JSON.stringify\<close> is given as request bodies.\<close>

datatype json =
  JNull
  | JBool bool
  | JNum int
  | JStr jsstring
  | JArr "json list"
  | JObj "(jsstring \<times> json) list"

datatype http_method = GET | POST | PUT | DELETE

text \<open>One call of \<^verbatim>\<open>fetchAPI(url, { method, body })\<close>.\<close>

record request =
  req_method :: http_method
  req_url :: jsstring
  req_body :: "json option"

section \<open>Agents.tsx: cron strings and the schedule dialog's configuration\<close>

text \<open>
  \<^verbatim>\<open>interface AgentConfig\<close>, the agent with its default schedule, model and channels. The
  free-form \<^verbatim>\<open>config\<close> map is a JSON value. The fields \<open>id\<close> and \<open>config\<close> are called \<open>agent_id\<close>
  and \<open>agent_config\<close> here, and \<open>schedule\<close>, \<open>ai_model_id\<close> and \<open>notify_channel_ids\<close> carry the
  prefix \<open>default_\<close>, to keep them apart from the fields of a binding.
\<close>

record AgentConfig =
  agent_id :: int
  name :: jsstring
  display_name :: jsstring
  description :: jsstring
  enabled :: bool
  default_schedule :: jsstring
  execution_mode :: jsstring
  default_ai_model_id :: "int option"
  default_notify_channel_ids :: "int list"
  agent_config :: json

text \<open>\<^verbatim>\<open>type ScheduleType = 'daily' | 'weekdays' | 'interval' | 'cron'\<close>\<close>

datatype ScheduleType = daily | weekdays | interval | cron

text \<open>
  \<^verbatim>\<open>interface ScheduleConfig { type; time?: string; interval?: number; cron?: string }\<close>;
  an optional field that is absent is \<open>None\<close>. The fields \<open>type\<close>, \<open>interval\<close> and \<open>cron\<close> are
  called \<open>stype\<close>, \<open>interval_minutes\<close> and \<open>cron_text\<close> here: the plain names are those of
  the schedule types.
\<close>

record ScheduleConfig =
  stype :: ScheduleType
  time :: "jsstring option"
  interval_minutes :: "int option"
  cron_text :: "jsstring option"

text \<open>\<^verbatim>\<open>cron.trim().split(/\s+/)\<close>\<close>

definition cronParts :: "jsstring \<Rightarrow> jsstring list" where
  "cronParts s = splitRe isSpace [] (trim s)"

text \<open>
  \<^verbatim>\<open>`${h.toString().padStart(2, '0')}:${m.toString().padStart(2, '0')}`\<close>
\<close>

definition timeOf :: "int \<Rightarrow> int \<Rightarrow> jsstring" where
  "timeOf h m = padStart2 (toString h) @ js '':'' @ padStart2 (toString m)"

text \<open>
  \<^verbatim>\<open>parseCronToConfig(cron)\<close>. The function has no failing branch: the empty string
  gives the daily default, and a string it does not recognise is kept as it is in a
  configuration of type \<open>cron\<close>. Of the five parts it reads the first, the second and the
  fifth (\<^verbatim>\<open>const [minute, hour, , , dayOfWeek] = parts\<close>).
\<close>

definition parseCronToConfig :: "jsstring \<Rightarrow> ScheduleConfig" where
  "parseCronToConfig s =
     (if s = [] then
        \<lparr>stype = daily, time = Some (js ''15:30''), interval_minutes = None, cron_text = None\<rparr>
      else
        let parts = cronParts s;
            custom = \<lparr>stype = cron, time = None, interval_minutes = None, cron_text = Some s\<rparr>
        in if length parts \<noteq> 5 then custom
           else
             let minute = parts ! 0; hour = parts ! 1; dayOfWeek = parts ! 4 in
             (case (if startsWith minute (js ''*/'') then parseInt (drop 2 minute) else None) of
                Some n \<Rightarrow>
                  \<lparr>stype = interval, time = None, interval_minutes = Some n, cron_text = None\<rparr>
              | None \<Rightarrow>
                  (case (parseInt minute, parseInt hour) of
                     (Some m, Some h) \<Rightarrow>
                       if dayOfWeek = js ''1-5'' then
                         \<lparr>stype = weekdays, time = Some (timeOf h m), interval_minutes = None,
                           cron_text = None\<rparr>
                       else if dayOfWeek = js ''*'' then
                         \<lparr>stype = daily, time = Some (timeOf h m), interval_minutes = None,
                           cron_text = None\<rparr>
                       else custom
                   | _ \<Rightarrow> custom)))"

text \<open>
  \<^verbatim>\<open>const [h, m] = (config.time || '15:30').split(':')\<close>: an absent or empty time is
  replaced by the default; \<open>m\<close> is \<^verbatim>\<open>undefined\<close> when the time holds no colon, and
  \<^verbatim>\<open>parseInt(undefined)\<close> is \<open>NaN\<close>.
\<close>

definition timeParts :: "ScheduleConfig \<Rightarrow> int option \<times> int option" where
  "timeParts config =
     (let t = (case time config of None \<Rightarrow> js ''15:30'' | Some x \<Rightarrow> if x = [] then js ''15:30'' else x);
          ps = splitOn 58 [] t
      in (parseInt (ps ! 0), (if length ps < 2 then None else parseInt (ps ! 1))))"

text \<open>
  \<^verbatim>\<open>configToCron(config)\<close>. \<^verbatim>\<open>config.interval || 30\<close> replaces an absent interval and the
  interval \<open>0\<close>; \<^verbatim>\<open>config.cron || '0 15 * * *'\<close> replaces an absent or empty expression.
  The \<^verbatim>\<open>default\<close> branch of the \<^verbatim>\<open>switch\<close> takes no value of \<open>ScheduleType\<close>.
\<close>

definition configToCron :: "ScheduleConfig \<Rightarrow> jsstring" where
  "configToCron config =
     (case stype config of
        daily \<Rightarrow>
          (case timeParts config of
             (h, m) \<Rightarrow> interpolate m @ js '' '' @ interpolate h @ js '' * * *'')
      | weekdays \<Rightarrow>
          (case timeParts config of
             (h, m) \<Rightarrow> interpolate m @ js '' '' @ interpolate h @ js '' * * 1-5'')
      | interval \<Rightarrow>
          js ''*/''
          @ toString (case interval_minutes config of None \<Rightarrow> 30 | Some n \<Rightarrow> if n = 0 then 30 else n)
          @ js '' * * * *''
      | cron \<Rightarrow>
          (case cron_text config of
             None \<Rightarrow> js ''0 15 * * *''
           | Some c \<Rightarrow> if c = [] then js ''0 15 * * *'' else c))"

section \<open>Stocks.tsx: the per-stock agent bindings\<close>

text \<open>
  \<^verbatim>\<open>interface StockAgentInfo { agent_name; schedule; ai_model_id: number | null;
  notify_channel_ids: number[] }\<close>
\<close>

record StockAgentInfo =
  agent_name :: jsstring
  schedule :: jsstring
  ai_model_id :: "int option"
  notify_channel_ids :: "int list"

text \<open>
  \<^verbatim>\<open>interface Stock\<close>. The handlers read \<^verbatim>\<open>stock.agents || []\<close>, so the field may be
  missing at run time: \<open>None\<close>. The fields \<open>id\<close>, \<open>name\<close> and \<open>enabled\<close> carry the prefix
  \<open>stock_\<close> here.
\<close>

record Stock =
  stock_id :: int
  symbol :: jsstring
  stock_name :: jsstring
  market :: jsstring
  stock_enabled :: bool
  agents :: "StockAgentInfo list option"

definition agent_json :: "StockAgentInfo \<Rightarrow> json" where
  "agent_json a = JObj
     [(js ''agent_name'', JStr (agent_name a)),
      (js ''schedule'', JStr (schedule a)),
      (js ''ai_model_id'', (case ai_model_id a of None \<Rightarrow> JNull | Some m \<Rightarrow> JNum m)),
      (js ''notify_channel_ids'', JArr (map JNum (notify_channel_ids a)))]"

text \<open>
  \<^verbatim>\<open>fetchAPI(`/stocks/${stock.id}/agents`, { method: 'PUT', body: JSON.stringify({ agents: newAgents }) })\<close>,
  the request every binding handler of the page ends with.
\<close>

definition putStockAgents :: "Stock \<Rightarrow> StockAgentInfo list \<Rightarrow> request" where
  "putStockAgents stock newAgents =
     \<lparr>req_method = PUT,
      req_url = js ''/stocks/'' @ toString (stock_id stock) @ js ''/agents'',
      req_body = Some (JObj [(js ''agents'', JArr (map agent_json newAgents))])\<rparr>"

text \<open>\<^verbatim>\<open>stock.agents || []\<close>\<close>

definition currentAgents :: "Stock \<Rightarrow> StockAgentInfo list" where
  "currentAgents stock = (case agents stock of None \<Rightarrow> [] | Some as \<Rightarrow> as)"

text \<open>
  \<^verbatim>\<open>toggleAgent(stock, agentName)\<close>: the list \<^verbatim>\<open>newAgents\<close> it computes, and the request
  it sends with it.
\<close>

definition toggleAgent_newAgents :: "Stock \<Rightarrow> jsstring \<Rightarrow> StockAgentInfo list" where
  "toggleAgent_newAgents stock agentName =
     (let current = currentAgents stock;
          isAssigned = list_ex (\<lambda>a. agent_name a = agentName) current
      in if isAssigned
         then filter (\<lambda>a. agent_name a \<noteq> agentName) current
         else current @
           [\<lparr>agent_name = agentName, schedule = js '''', ai_model_id = None,
             notify_channel_ids = []\<rparr>])"

definition toggleAgent :: "Stock \<Rightarrow> jsstring \<Rightarrow> request" where
  "toggleAgent stock agentName = putStockAgents stock (toggleAgent_newAgents stock agentName)"

text \<open>
  \<^verbatim>\<open>updateStockAgentSchedule(stock, agentName, schedule)\<close>: the binding of the agent gets
  the new schedule, every other binding is passed on as it is.
\<close>

definition updateStockAgentSchedule_newAgents ::
    "Stock \<Rightarrow> jsstring \<Rightarrow> jsstring \<Rightarrow> StockAgentInfo list" where
  "updateStockAgentSchedule_newAgents stock agentName sched =
     map (\<lambda>a. if agent_name a = agentName then a\<lparr>schedule := sched\<rparr> else a)
       (currentAgents stock)"

definition updateStockAgentSchedule :: "Stock \<Rightarrow> jsstring \<Rightarrow> jsstring \<Rightarrow> request" where
  "updateStockAgentSchedule stock agentName sched =
     putStockAgents stock (updateStockAgentSchedule_newAgents stock agentName sched)"

text \<open>
  The schedule select of the agent dialog: it shows \<^verbatim>\<open>stockAgent?.schedule || '__default__'\<close>
  and stores \<^verbatim>\<open>val === '__default__' ? '' : val\<close>.
\<close>

definition scheduleSelectValue :: "StockAgentInfo option \<Rightarrow> jsstring" where
  "scheduleSelectValue stockAgent =
     (case stockAgent of
        None \<Rightarrow> js ''__default__''
      | Some a \<Rightarrow> if schedule a = [] then js ''__default__'' else schedule a)"

definition scheduleOfSelect :: "jsstring \<Rightarrow> jsstring" where
  "scheduleOfSelect val = (if val = js ''__default__'' then [] else val)"

section \<open>The data sources page\<close>

text \<open>
  \<^verbatim>\<open>interface DataSourceForm\<close>, its fields with the prefix \<open>ds_\<close>; \<open>config\<close> is a
  \<^verbatim>\<open>Record<string, unknown>\<close>.
\<close>

record DataSourceForm =
  ds_name :: jsstring
  ds_type :: jsstring
  ds_provider :: jsstring
  ds_config :: json
  ds_priority :: int
  ds_supports_batch :: bool
  ds_test_symbols :: "jsstring list"

text \<open>
  The state of \<^verbatim>\<open>DataSourcesPage\<close> that \<^verbatim>\<open>saveSource\<close> reads: the form, the identifier of
  the source being edited (\<^verbatim>\<open>number | null\<close>) and the text of the test symbols input.
\<close>

record DataSourcesPage =
  form :: DataSourceForm
  editId :: "int option"
  testSymbolsInput :: jsstring

text \<open>
  The separator class of \<^verbatim>\<open>/[,\uFF0C\s]+/\<close>: the comma (44), the fullwidth comma U+FF0C
  (65292) and white space.
\<close>

definition isSymbolSep :: "nat \<Rightarrow> bool" where
  "isSymbolSep c = (c = 44 \<or> c = 65292 \<or> isSpace c)"

text \<open>
  \<^verbatim>\<open>testSymbolsInput.split(/[,\uFF0C\s]+/).map(s => s.trim()).filter(s => s.length > 0)\<close>
\<close>

definition testSymbolsOf :: "jsstring \<Rightarrow> jsstring list" where
  "testSymbolsOf input =
     filter (\<lambda>s. length s > 0) (map trim (splitRe isSymbolSep [] input))"

text \<open>
  \<^verbatim>\<open>saveSource()\<close>: nothing is sent when \<^verbatim>\<open>editId\<close> is falsy (null or 0); otherwise one
  \<^verbatim>\<open>PUT /datasources/${editId}\<close> whose body is the object
  \<^verbatim>\<open>{ priority: form.priority, test_symbols: testSymbols }\<close>.
\<close>

definition saveSource :: "DataSourcesPage \<Rightarrow> request option" where
  "saveSource st =
     (case editId st of
        None \<Rightarrow> None
      | Some i \<Rightarrow>
          if i = 0 then None
          else Some
            \<lparr>req_method = PUT,
             req_url = js ''/datasources/'' @ toString i,
             req_body = Some (JObj
               [(js ''priority'', JNum (ds_priority (form st))),
                (js ''test_symbols'', JArr (map JStr (testSymbolsOf (testSymbolsInput st))))])\<rparr>)"

text \<open>The property names of a request's body, in their order.\<close>

definition bodyKeys :: "request \<Rightarrow> jsstring list" where
  "bodyKeys r = (case req_body r of Some (JObj kvs) \<Rightarrow> map fst kvs | _ \<Rightarrow> [])"

section \<open>ScheduleExpression: when a cron string is due\<close>

text \<open>
  The component ScheduleExpression of the scheduling engine evaluates a cron string at
  a timestamp. It is not among the sources: the pages only hand cron strings to it.
  Its definitions below follow the spec, which gives a schedule five fields (minute,
  hour, day of month, month, day of week), fixed values, the day-of-week restriction
  \<open>1-5\<close> and \<open>*\<close>, the hour range of \<open>*/5 9-15 * * 1-5\<close>, and the interval \<open>*/N\<close> on the
  minute field.
\<close>

datatype Field = Any | Exact nat | Range nat nat | Every nat

record Schedule =
  minuteField :: Field
  hourField :: Field
  dayOfMonthField :: Field
  monthField :: Field
  dayOfWeekField :: Field

datatype ConfigError = InvalidScheduleError

text \<open>
  A timestamp as the calendar reads it: the minutes since the epoch and the minute, hour,
  day of the month, month and day of the week (0 is Sunday) of the same instant.
\<close>

record Timestamp =
  minutesSinceEpoch :: nat
  minuteOf :: nat
  hourOf :: nat
  dayOfMonthOf :: nat
  monthOf :: nat
  dayOfWeekOf :: nat

text \<open>
  Modelled from the spec: the reading of one field, which is missing with the rest of
  ScheduleExpression. A field is \<open>*\<close>, a decimal number or a range \<open>a-b\<close> of two
  decimal numbers; anything else is malformed.
\<close>

definition parseField :: "jsstring \<Rightarrow> Field option" where
  "parseField s =
     (if s = js ''*'' then Some Any
      else if allDigits s then Some (Exact (digitsValue 10 s))
      else
        (case splitOn 45 [] s of
           [a, b] \<Rightarrow>
             if allDigits a \<and> allDigits b
             then Some (Range (digitsValue 10 a) (digitsValue 10 b))
             else None
         | _ \<Rightarrow> None))"

text \<open>
  Modelled from the spec: the reading of the minute field, missing with the rest of
  ScheduleExpression. Besides the forms of every field it may be the interval \<open>*/N\<close>
  (every \<open>N\<close> minutes), with \<open>N\<close> a positive decimal number.
\<close>

definition parseMinuteField :: "jsstring \<Rightarrow> Field option" where
  "parseMinuteField s =
     (if startsWith s (js ''*/'') then
        (if allDigits (drop 2 s) \<and> 0 < digitsValue 10 (drop 2 s)
         then Some (Every (digitsValue 10 (drop 2 s)))
         else None)
      else parseField s)"

text \<open>
  Modelled from the spec: \<open>parse(text) -> Schedule | fails with InvalidScheduleError\<close> of
  ScheduleExpression, which is not among the sources. The text is cut at white space
  into five fields; a text with another number of fields or with a malformed field is
  an error.
\<close>

definition parse :: "jsstring \<Rightarrow> ConfigError + Schedule" where
  "parse text =
     (case cronParts text of
        [mi, h, d, mo, w] \<Rightarrow>
          (case (parseMinuteField mi, parseField h, parseField d, parseField mo, parseField w) of
             (Some fmi, Some fh, Some fd, Some fmo, Some fw) \<Rightarrow>
               Inr \<lparr>minuteField = fmi, hourField = fh, dayOfMonthField = fd,
                    monthField = fmo, dayOfWeekField = fw\<rparr>
           | _ \<Rightarrow> Inl InvalidScheduleError)
      | _ \<Rightarrow> Inl InvalidScheduleError)"

text \<open>
  Modelled from the spec: whether one field admits a value, missing with the rest of
  ScheduleExpression.
\<close>

fun fieldMatches :: "Field \<Rightarrow> nat \<Rightarrow> bool" where
  "fieldMatches Any v = True"
| "fieldMatches (Exact n) v = (v = n)"
| "fieldMatches (Range a b) v = (a \<le> v \<and> v \<le> b)"
| "fieldMatches (Every n) v = (v mod n = 0)"

text \<open>
  Modelled from the spec: \<open>isDue(schedule, now, lastFireTime)\<close> of ScheduleExpression,
  which is not among the sources. An interval \<open>*/N\<close> on the minute field fires whenever
  \<open>minutesSinceEpoch mod N = 0\<close>, whatever the other fields hold; every other schedule
  is due when each of its five fields admits the timestamp's value. The last fire time
  is left out: the spec does not say how it enters the decision.
\<close>

definition isDue :: "Schedule \<Rightarrow> Timestamp \<Rightarrow> bool" where
  "isDue sch now =
     (case minuteField sch of
        Every n \<Rightarrow> minutesSinceEpoch now mod n = 0
      | f \<Rightarrow>
          fieldMatches f (minuteOf now)
          \<and> fieldMatches (hourField sch) (hourOf now)
          \<and> fieldMatches (dayOfMonthField sch) (dayOfMonthOf now)
          \<and> fieldMatches (monthField sch) (monthOf now)
          \<and> fieldMatches (dayOfWeekField sch) (dayOfWeekOf now))"

text \<open>
  Modelled from the spec: the decision of ScheduleExpression for a cron string at a
  timestamp, \<open>parse\<close> followed by \<open>isDue\<close>: an error, or due or not due.
\<close>

definition dueAt :: "jsstring \<Rightarrow> Timestamp \<Rightarrow> ConfigError + bool" where
  "dueAt text now = (case parse text of Inl e \<Rightarrow> Inl e | Inr sch \<Rightarrow> Inr (isDue sch now))"

text \<open>2 January 2024, a Tuesday, at 15:30 UTC.\<close>

definition tuesday_1530 :: Timestamp where
  "tuesday_1530 =
     \<lparr>minutesSinceEpoch = 28403490, minuteOf = 30, hourOf = 15, dayOfMonthOf = 2,
      monthOf = 1, dayOfWeekOf = 2\<rparr>"

section \<open>ConfigResolver\<close>

text \<open>
  The component ConfigResolver of the engine merges the agent's defaults
  (\<open>AgentConfig\<close>), the per-stock binding (\<open>StockAgentInfo\<close>) and the overrides of one run
  into the configuration of that run. The pages edit the first two layers; the resolver
  itself is not among the sources. A runtime override holds a value for the fields it
  forces and the flag of a manual trigger.
\<close>

record RuntimeOverride =
  override_schedule :: "jsstring option"
  override_ai_model_id :: "int option"
  override_notify_channel_ids :: "int list option"
  bypass_throttle :: bool

record ExecutionConfig =
  resolved_schedule :: jsstring
  resolved_ai_model_id :: "int option"
  resolved_notify_channel_ids :: "int list"
  resolved_execution_mode :: jsstring

text \<open>
  Modelled from the spec: \<open>resolve(agentDefault, binding | null, runtimeOverride)\<close> of
  ConfigResolver, which is not among the sources. Field by field the highest layer that
  holds a value wins: the runtime override, then the binding's override when it is
  non-empty (non-null for the model), then the agent's default. A non-empty channel
  list of the binding replaces the default list. The substitution of the system-wide
  default channel for an empty result is a later step and not part of this function.
\<close>

definition resolve ::
    "AgentConfig \<Rightarrow> StockAgentInfo option \<Rightarrow> RuntimeOverride \<Rightarrow> ExecutionConfig" where
  "resolve agentDefault binding runtimeOverride =
     \<lparr>resolved_schedule =
        (case override_schedule runtimeOverride of
           Some s \<Rightarrow> s
         | None \<Rightarrow>
             (case binding of
                None \<Rightarrow> default_schedule agentDefault
              | Some b \<Rightarrow>
                  if schedule b \<noteq> [] then schedule b else default_schedule agentDefault)),
      resolved_ai_model_id =
        (case override_ai_model_id runtimeOverride of
           Some m \<Rightarrow> Some m
         | None \<Rightarrow>
             (case binding of
                None \<Rightarrow> default_ai_model_id agentDefault
              | Some b \<Rightarrow>
                  (case ai_model_id b of
                     Some m \<Rightarrow> Some m
                   | None \<Rightarrow> default_ai_model_id agentDefault))),
      resolved_notify_channel_ids =
        (case override_notify_channel_ids runtimeOverride of
           Some ids \<Rightarrow> ids
         | None \<Rightarrow>
             (case binding of
                None \<Rightarrow> default_notify_channel_ids agentDefault
              | Some b \<Rightarrow>
                  if notify_channel_ids b \<noteq> [] then notify_channel_ids b
                  else default_notify_channel_ids agentDefault)),
      resolved_execution_mode = execution_mode agentDefault\<rparr>"

section \<open>DataSourceRouter\<close>

text \<open>
  The fields of a \<^verbatim>\<open>DataSource\<close> that the data sources page reads (the type itself is
  imported from a module that is not among the sources). The fields \<open>id\<close>, \<open>name\<close>, \<open>type\<close>,
  \<open>config\<close> and \<open>enabled\<close> carry the prefix \<open>source_\<close> here.
\<close>

record DataSource =
  source_id :: int
  source_name :: jsstring
  source_type :: jsstring
  provider :: jsstring
  source_config :: json
  priority :: int
  supports_batch :: bool
  source_enabled :: bool
  test_symbols :: "jsstring list"

text \<open>
  \<^verbatim>\<open>interface TestLogItem\<close> of the data sources page, the log entry the test dialog
  renders: \<^verbatim>\<open>action: 'start' | 'success' | 'error'\<close>.
\<close>

datatype Action = start | success | error

record TestLogItem =
  timestamp :: jsstring
  log_source_name :: jsstring
  log_source_type :: jsstring
  action :: Action
  message :: jsstring
  duration_ms :: int
  count :: int

text \<open>
  The component DataSourceRouter of the engine is not among the sources, which hold
  only the page that edits the bindings and the types of the log the router returns.
  A provider is an external collaborator of the router: \<open>call\<close> gives, for a binding and
  the requested symbols, when the attempt started, how long it took, and the items or
  the failure.
\<close>

datatype ProviderFailure = Unavailable | RateLimited

record Attempt =
  started_at :: jsstring
  took_ms :: int
  outcome :: "ProviderFailure + json list"

type_synonym ProviderCall = "DataSource \<Rightarrow> jsstring list \<Rightarrow> Attempt"

datatype RouterError = NoProviderAvailable

text \<open>
  Modelled from the spec: the log entries of DataSourceRouter, which is not among the
  sources. An entry names its binding and carries a phase, a message, a duration and a
  count; the message of an \<open>error\<close> entry is the failure's reason.
\<close>

definition failureReason :: "ProviderFailure \<Rightarrow> jsstring" where
  "failureReason f = (case f of Unavailable \<Rightarrow> js ''Unavailable'' | RateLimited \<Rightarrow> js ''RateLimited'')"

definition logEntry :: "DataSource \<Rightarrow> Attempt \<Rightarrow> Action \<Rightarrow> jsstring \<Rightarrow> int \<Rightarrow> int \<Rightarrow> TestLogItem" where
  "logEntry b a act msg dur n =
     \<lparr>timestamp = started_at a, log_source_name = source_name b,
      log_source_type = source_type b, action = act, message = msg, duration_ms = dur,
      count = n\<rparr>"

text \<open>
  Modelled from the spec: the candidates of a fetch of DataSourceRouter, which is not
  among the sources: the enabled bindings of the requested type in ascending order of
  priority, ties broken by the binding's identifier.
\<close>

definition candidates :: "jsstring \<Rightarrow> DataSource list \<Rightarrow> DataSource list" where
  "candidates ty bindings =
     sort_key (\<lambda>b. (priority b, source_id b))
       (filter (\<lambda>b. source_enabled b \<and> source_type b = ty) bindings)"

text \<open>
  Modelled from the spec: the sequential trial of DataSourceRouter, which is not among
  the sources. The providers are invoked one after the other until one succeeds. Every
  attempt logs a \<open>start\<close> entry and then a \<open>success\<close> entry (with the number of items and
  the duration) or an \<open>error\<close> entry (with the failure's reason) before the next
  candidate is tried. When no candidate succeeds the result is \<open>NoProviderAvailable\<close>,
  with the whole log.
\<close>

fun tryProviders ::
    "ProviderCall \<Rightarrow> jsstring list \<Rightarrow> DataSource list
      \<Rightarrow> (RouterError + json list) \<times> TestLogItem list" where
  "tryProviders call req [] = (Inl NoProviderAvailable, [])"
| "tryProviders call req (b # bs) =
     (case outcome (call b req) of
        Inr items \<Rightarrow>
          (Inr items,
           [logEntry b (call b req) start [] 0 0,
            logEntry b (call b req) success [] (took_ms (call b req)) (int (length items))])
      | Inl f \<Rightarrow>
          (case tryProviders call req bs of
             (result, log) \<Rightarrow>
               (result,
                logEntry b (call b req) start [] 0 0
                # logEntry b (call b req) error (failureReason f) (took_ms (call b req)) 0
                # log)))"

text \<open>
  Modelled from the spec: \<open>fetch(type, request) -> (Result, [ExecutionLogEntry])\<close> of
  DataSourceRouter, which is not among the sources: the sequential trial of the
  candidates of the type.
\<close>

definition fetch ::
    "ProviderCall \<Rightarrow> DataSource list \<Rightarrow> jsstring \<Rightarrow> jsstring list
      \<Rightarrow> (RouterError + json list) \<times> TestLogItem list" where
  "fetch call bindings ty req = tryProviders call req (candidates ty bindings)"

text \<open>
  Modelled from the spec: the bindings that the sequential trial of DataSourceRouter
  invokes over the candidates \<open>bs\<close>, in the order of their invocation: each candidate up
  to and including the first that succeeds.
\<close>

fun attempted :: "ProviderCall \<Rightarrow> jsstring list \<Rightarrow> DataSource list \<Rightarrow> DataSource list" where
  "attempted call req [] = []"
| "attempted call req (b # bs) =
     (case outcome (call b req) of
        Inr items \<Rightarrow> [b]
      | Inl f \<Rightarrow> b # attempted call req bs)"

text \<open>
  Modelled from the spec: the bindings that a fetch of DataSourceRouter invokes, and
  whether the provider of a binding fails.
\<close>

definition trialOrder ::
    "ProviderCall \<Rightarrow> DataSource list \<Rightarrow> jsstring \<Rightarrow> jsstring list \<Rightarrow> DataSource list" where
  "trialOrder call bindings ty req = attempted call req (candidates ty bindings)"

definition failed :: "ProviderCall \<Rightarrow> jsstring list \<Rightarrow> DataSource \<Rightarrow> bool" where
  "failed call req b = (case outcome (call b req) of Inl f \<Rightarrow> True | Inr items \<Rightarrow> False)"

text \<open>The three bindings of the spec's example, of type \<open>quote\<close>.\<close>

definition bindingA :: DataSource where
  "bindingA =
     \<lparr>source_id = 1, source_name = js ''A'', source_type = js ''quote'', provider = js ''a'',
      source_config = JObj [], priority = 1, supports_batch = False, source_enabled = False,
      test_symbols = []\<rparr>"

definition bindingB :: DataSource where
  "bindingB =
     \<lparr>source_id = 2, source_name = js ''B'', source_type = js ''quote'', provider = js ''b'',
      source_config = JObj [], priority = 2, supports_batch = False, source_enabled = True,
      test_symbols = []\<rparr>"

definition bindingC :: DataSource where
  "bindingC =
     \<lparr>source_id = 3, source_name = js ''C'', source_type = js ''quote'', provider = js ''c'',
      source_config = JObj [], priority = 3, supports_batch = False, source_enabled = True,
      test_symbols = []\<rparr>"

section \<open>Concrete inputs\<close>

text \<open>A stock bound to two agents, as \<^verbatim>\<open>GET /stocks\<close> returns it.\<close>

definition dailyBinding :: StockAgentInfo where
  "dailyBinding =
     \<lparr>agent_name = js ''daily_report'', schedule = js ''0 18 * * 1-5'',
      ai_model_id = Some 2, notify_channel_ids = [1]\<rparr>"

definition intradayBinding :: StockAgentInfo where
  "intradayBinding =
     \<lparr>agent_name = js ''intraday_monitor'', schedule = [], ai_model_id = None,
      notify_channel_ids = []\<rparr>"

definition stock0 :: Stock where
  "stock0 =
     \<lparr>stock_id = 12, symbol = js ''601127'', stock_name = js ''Seres'', market = js ''CN'',
      stock_enabled = True, agents = Some [dailyBinding, intradayBinding]\<rparr>"

text \<open>The agent \<open>intraday_monitor\<close> with the default schedule of the spec's scenario.\<close>

definition intradayAgent :: AgentConfig where
  "intradayAgent =
     \<lparr>agent_id = 3, name = js ''intraday_monitor'', display_name = js ''Intraday monitor'',
      description = [], enabled = True, default_schedule = js ''*/5 9-15 * * 1-5'',
      execution_mode = js ''single'', default_ai_model_id = Some 1,
      default_notify_channel_ids = [], agent_config = JObj []\<rparr>"

definition noOverride :: RuntimeOverride where
  "noOverride =
     \<lparr>override_schedule = None, override_ai_model_id = None,
      override_notify_channel_ids = None, bypass_throttle = False\<rparr>"

text \<open>The settings dialog of data source 7 with two test symbols typed in.\<close>

definition page0 :: DataSourcesPage where
  "page0 =
     \<lparr>form =
        \<lparr>ds_name = js ''Sina'', ds_type = js ''quote'', ds_provider = js ''sina'',
         ds_config = JObj [], ds_priority = 2, ds_supports_batch = True,
         ds_test_symbols = []\<rparr>,
      editId = Some 7, testSymbolsInput = js '' 601127, 600519,,''\<rparr>"

text \<open>A provider call that fails for binding B (identifier 2) and succeeds for the others.\<close>

definition failsForB :: ProviderCall where
  "failsForB b req =
     (if source_id b = 2
      then \<lparr>started_at = js ''09:30:00'', took_ms = 120, outcome = Inl Unavailable\<rparr>
      else \<lparr>started_at = js ''09:30:01'', took_ms = 35, outcome = Inr [JNum 1]\<rparr>)"

section \<open>Properties\<close>

lemma js_empty: "js '''' = []"
  by (simp add: js_def)

subsection \<open>Splitting and trimming\<close>

text \<open>
  A split gives at least one piece, so the first piece that \<open>timeParts\<close> reads is there.
\<close>

lemma splitOn_not_empty: "splitOn d cur s \<noteq> []"
  by (induction s arbitrary: cur) simp_all

lemma splitRe_not_empty: "splitRe sep cur s \<noteq> []"
  by (induction sep cur s rule: splitRe.induct) simp_all

lemma splitRe_no_sep:
  "list_all (\<lambda>c. \<not> sep c) cur \<Longrightarrow>
   list_all (list_all (\<lambda>c. \<not> sep c)) (splitRe sep cur s)"
proof (induction sep cur s rule: splitRe.induct)
  case (1 sep cur)
  then show ?case by simp
next
  case (2 sep cur c cs)
  then show ?case by simp
qed

lemma trim_subset: "set (trim s) \<subseteq> set s"
proof -
  have "set (trim s) \<subseteq> set (rev (dropWhile isSpace s))"
    unfolding trim_def using set_dropWhileD by fastforce
  also have "\<dots> \<subseteq> set s"
    using set_dropWhileD by fastforce
  finally show ?thesis .
qed

lemma testSymbolsOf_clean:
  "list_all (\<lambda>s. s \<noteq> [] \<and> list_all (\<lambda>c. \<not> isSymbolSep c) s) (testSymbolsOf input)"
proof -
  have pieces: "list_all (list_all (\<lambda>c. \<not> isSymbolSep c)) (splitRe isSymbolSep [] input)"
    by (rule splitRe_no_sep) simp
  show ?thesis
    unfolding testSymbolsOf_def list_all_iff
  proof (intro ballI)
    fix s
    assume "s \<in> set (filter (\<lambda>s. 0 < length s) (map trim (splitRe isSymbolSep [] input)))"
    then obtain p where p: "p \<in> set (splitRe isSymbolSep [] input)"
      and s: "s = trim p" and ne: "s \<noteq> []"
      by auto
    from pieces p have "\<forall>c\<in>set p. \<not> isSymbolSep c" by (simp add: list_all_iff)
    with trim_subset[of p] s have "\<forall>c\<in>set s. \<not> isSymbolSep c" by blast
    with ne show "s \<noteq> [] \<and> (\<forall>c\<in>set s. \<not> isSymbolSep c)" by simp
  qed
qed

subsection \<open>Evaluating the cron functions\<close>

lemmas js_eval = js_def isSpace_def trim_def cronParts_def Let_def startsWith_def
  padStart2_def toString_def interpolate_def digitValue_def isDigitOf_def digitsValue_def
  parseInt_def

lemmas cron_eval = js_eval timeOf_def timeParts_def parseCronToConfig_def configToCron_def

lemmas due_eval = allDigits_def parseField_def parseMinuteField_def parse_def isDue_def
  dueAt_def tuesday_1530_def

text \<open>
  Decimal strings: \<open>parseInt\<close> reads back what \<open>toString\<close> and \<open>padStart\<close> print, and a
  time \<open>HH:MM\<close> built from two numbers splits at its colon into the same two numbers.
\<close>

lemma digits_dec: "digits n \<noteq> [] \<and> list_all (\<lambda>c. 48 \<le> c \<and> c \<le> 57) (digits n)"
proof (induction n rule: digits.induct)
  case (1 n)
  show ?case
  proof (cases "n < 10")
    case True
    then show ?thesis by (subst digits.simps, subst (2) digits.simps) simp
  next
    case False
    have "n mod 10 < 10" by simp
    then have "48 + n mod 10 \<le> 57" by linarith
    with False 1 show ?thesis by (subst digits.simps, subst (2) digits.simps) simp
  qed
qed

lemma digitsValue_snoc:
  "digitsValue r (ds @ [c]) = digitsValue r ds * r + (case digitValue c of None \<Rightarrow> 0 | Some v \<Rightarrow> v)"
  by (simp add: digitsValue_def)

lemma digitValue_dec: "48 \<le> c \<Longrightarrow> c \<le> 57 \<Longrightarrow> digitValue c = Some (c - 48)"
  by (simp add: digitValue_def)

lemma digitsValue_digits: "digitsValue 10 (digits n) = n"
proof (induction n rule: digits.induct)
  case (1 n)
  show ?case
  proof (cases "n < 10")
    case True
    then show ?thesis by (subst digits.simps) (simp add: digitsValue_def digitValue_def)
  next
    case False
    have "n mod 10 < 10" by simp
    then have d: "digitValue (48 + n mod 10) = Some (n mod 10)"
      by (simp add: digitValue_def)
    from False 1 have "digitsValue 10 (digits (n div 10)) = n div 10" by simp
    with False d show ?thesis
      by (subst digits.simps) (simp add: digitsValue_snoc)
  qed
qed

lemma digitsValue_zeros: "digitsValue 10 (replicate k 48 @ ds) = digitsValue 10 ds"
proof -
  have "foldl (\<lambda>a c. a * 10 + (case digitValue c of None \<Rightarrow> 0 | Some v \<Rightarrow> v)) 0 (replicate k 48) = 0"
    by (induction k) (simp_all add: digitValue_def)
  then show ?thesis by (simp add: digitsValue_def)
qed

lemma parseInt_dec:
  assumes "ds \<noteq> []" and "list_all (\<lambda>c. 48 \<le> c \<and> c \<le> 57) ds"
  shows "parseInt ds = Some (int (digitsValue 10 ds))"
    and "parseInt (45 # ds) = Some (- int (digitsValue 10 ds))"
proof -
  from assms obtain c cs where ds: "ds = c # cs" and c: "48 \<le> c" "c \<le> 57"
    by (cases ds) auto
  have all: "\<And>x. x \<in> set ds \<Longrightarrow> isDigitOf 10 x"
    using assms(2) by (auto simp: list_all_iff isDigitOf_def digitValue_def)
  then have tw: "takeWhile (isDigitOf 10) ds = ds"
    by (simp add: takeWhile_eq_all_conv)
  have nsp: "\<not> isSpace c" using c by (simp add: isSpace_def)
  have nhex: "\<not> startsWith ds (js ''0x'')" "\<not> startsWith ds (js ''0X'')"
  proof -
    have "cs \<noteq> [] \<Longrightarrow> hd cs \<noteq> 120 \<and> hd cs \<noteq> 88"
      using assms(2) ds by (cases cs) (auto simp: list_all_iff)
    then show "\<not> startsWith ds (js ''0x'')" "\<not> startsWith ds (js ''0X'')"
      unfolding ds by (cases cs; simp add: startsWith_def js_def)+
  qed
  show "parseInt ds = Some (int (digitsValue 10 ds))"
    using nsp nhex tw c assms(1) unfolding parseInt_def Let_def ds
    by simp
  show "parseInt (45 # ds) = Some (- int (digitsValue 10 ds))"
    using nsp nhex tw c assms(1) unfolding parseInt_def Let_def ds
    by (simp add: isSpace_def)
qed

lemma padded_chars:
  "padStart2 (toString n) \<noteq> [] \<and> 58 \<notin> set (padStart2 (toString n))"
proof (cases "n < 0")
  case True
  have "58 \<notin> set (digits (nat (- n)))"
    using digits_dec[of "nat (- n)"] by (auto simp: list_all_iff simp del: digits.simps)
  with True show ?thesis by (simp add: padStart2_def toString_def del: digits.simps)
next
  case False
  have "58 \<notin> set (digits (nat n))" "digits (nat n) \<noteq> []"
    using digits_dec[of "nat n"] by (auto simp: list_all_iff simp del: digits.simps)
  with False show ?thesis by (simp add: padStart2_def toString_def del: digits.simps)
qed

lemma parseInt_padded: "parseInt (padStart2 (toString n)) = Some n"
proof (cases "n < 0")
  case True
  have d: "digits (nat (- n)) \<noteq> []" using digits_dec by blast
  then have "length (45 # digits (nat (- n))) \<ge> 2"
    by (cases "digits (nat (- n))") (simp_all del: digits.simps)
  then have "padStart2 (toString n) = 45 # digits (nat (- n))"
    using True by (simp add: padStart2_def toString_def del: digits.simps)
  moreover have "parseInt (45 # digits (nat (- n)))
      = Some (- int (digitsValue 10 (digits (nat (- n)))))"
    using digits_dec[of "nat (- n)"] by (intro parseInt_dec(2)) blast+
  ultimately show ?thesis using True by (simp add: digitsValue_digits del: digits.simps)
next
  case False
  let ?k = "2 - length (digits (nat n))"
  have p: "padStart2 (toString n) = replicate ?k 48 @ digits (nat n)"
    using False by (simp add: padStart2_def toString_def del: digits.simps)
  have ne: "replicate ?k 48 @ digits (nat n) \<noteq> []"
    using digits_dec[of "nat n"] by (simp del: digits.simps)
  have al: "list_all (\<lambda>c. 48 \<le> c \<and> c \<le> 57) (replicate ?k 48 @ digits (nat n))"
    using digits_dec[of "nat n"] by (auto simp: list_all_iff simp del: digits.simps)
  from parseInt_dec(1)[OF ne al] p False show ?thesis
    by (simp add: digitsValue_zeros digitsValue_digits del: digits.simps)
qed

lemma splitOn_no_sep: "d \<notin> set s \<Longrightarrow> splitOn d cur s = [cur @ s]"
  by (induction s arbitrary: cur) auto

lemma splitOn_at_sep:
  "d \<notin> set a \<Longrightarrow> splitOn d cur (a @ d # b) = (cur @ a) # splitOn d [] b"
  by (induction a arbitrary: cur) auto

lemma timeParts_timeOf:
  assumes t: "time config = Some (timeOf h m)"
  shows "timeParts config = (Some h, Some m)"
proof -
  have ne: "timeOf h m \<noteq> []" using padded_chars[of h] by (simp add: timeOf_def)
  have c: "js '':'' = [58]" by (simp add: js_def)
  have "splitOn 58 [] (padStart2 (toString h) @ 58 # padStart2 (toString m))
      = [padStart2 (toString h), padStart2 (toString m)]"
    using padded_chars[of h] padded_chars[of m]
    by (simp add: splitOn_at_sep splitOn_no_sep)
  then have "splitOn 58 [] (timeOf h m) = [padStart2 (toString h), padStart2 (toString m)]"
    by (simp only: timeOf_def c append_Cons append_Nil)
  with t ne show ?thesis
    by (simp add: timeParts_def Let_def parseInt_padded)
qed

lemma allDigits_not_interval: "allDigits mi \<Longrightarrow> \<not> startsWith mi (js ''*/'')"
  by (cases mi) (auto simp: allDigits_def startsWith_def js_def)

lemma parseInt_allDigits: "allDigits x \<Longrightarrow> parseInt x = Some (int (digitsValue 10 x))"
  unfolding allDigits_def by (rule parseInt_dec(1)) simp_all

lemma configToCron_timeOf:
  "configToCron \<lparr>stype = daily, time = Some (timeOf h m), interval_minutes = i, cron_text = c\<rparr>
     = toString m @ js '' '' @ toString h @ js '' * * *''"
  "configToCron \<lparr>stype = weekdays, time = Some (timeOf h m), interval_minutes = i, cron_text = c\<rparr>
     = toString m @ js '' '' @ toString h @ js '' * * 1-5''"
proof -
  have a: "timeParts \<lparr>stype = daily, time = Some (timeOf h m), interval_minutes = i,
      cron_text = c\<rparr> = (Some h, Some m)"
    by (rule timeParts_timeOf) simp
  have b: "timeParts \<lparr>stype = weekdays, time = Some (timeOf h m), interval_minutes = i,
      cron_text = c\<rparr> = (Some h, Some m)"
    by (rule timeParts_timeOf) simp
  show "configToCron \<lparr>stype = daily, time = Some (timeOf h m), interval_minutes = i,
      cron_text = c\<rparr> = toString m @ js '' '' @ toString h @ js '' * * *''"
    by (simp add: configToCron_def a interpolate_def del: digits.simps)
  show "configToCron \<lparr>stype = weekdays, time = Some (timeOf h m), interval_minutes = i,
      cron_text = c\<rparr> = toString m @ js '' '' @ toString h @ js '' * * 1-5''"
    by (simp add: configToCron_def b interpolate_def del: digits.simps)
qed

lemma timeParts_default:
  assumes "time cfg = None \<or> time cfg = Some []"
  shows "timeParts cfg = (Some 15, Some 30)"
proof -
  have s: "splitOn 58 [] (js ''15:30'') = [js ''15'', js ''30'']"
    by (simp add: js_def)
  have p: "parseInt (js ''15'') = Some 15" "parseInt (js ''30'') = Some 30"
    by (simp_all add: js_eval)
  from assms show ?thesis
  proof
    assume "time cfg = None"
    then show ?thesis by (simp add: timeParts_def Let_def s p)
  next
    assume "time cfg = Some []"
    then show ?thesis by (simp add: timeParts_def Let_def s p)
  qed
qed

text \<open>
  Claim C5, as the pages have it. Neither function has a failing branch, and these are
  the defaults they apply: the empty expression is parsed as the daily schedule 15:30
  and written back as \<open>30 15 * * *\<close>; an interval of 0 minutes (\<open>*/0\<close> in the minute part,
  or a configuration with the interval 0 or none) is written as 30 minutes; a daily or
  weekday configuration with no time or an empty time is written with 15:30; a
  configuration of type \<open>cron\<close> with no expression or an empty one is written as
  \<open>0 15 * * *\<close>. A non-empty expression that does not have five parts is kept as it is
  and written back unchanged, and so is an expression of five parts that is not
  recognised: its minute part is not \<open>*/\<close> followed by a number, and its minute or hour
  part does not start with a number or its day-of-week part is neither \<open>1-5\<close> nor \<open>*\<close>.
  An interval \<open>*/N\<close> with a decimal number \<open>N\<close> other than 0 is written back as
  \<open>*/N * * * *\<close>, and a daily or weekday expression whose minute and hour are decimal
  numbers and whose day and month parts are \<open>*\<close> is written back with its own minute and
  hour. The numbers are those a JavaScript number holds exactly.
\<close>

theorem schedule_defaults_and_kept_expressions:
  "parseCronToConfig [] =
     \<lparr>stype = daily, time = Some (js ''15:30''), interval_minutes = None, cron_text = None\<rparr>
   \<and> configToCron (parseCronToConfig []) = js ''30 15 * * *''
   \<and> (stype cfg = cron \<longrightarrow>
        configToCron cfg =
          (case cron_text cfg of
             None \<Rightarrow> js ''0 15 * * *''
           | Some c \<Rightarrow> if c = [] then js ''0 15 * * *'' else c))
   \<and> (stype cfg = interval
        \<and> (case interval_minutes cfg of None \<Rightarrow> True | Some k \<Rightarrow> isSafeInteger k) \<longrightarrow>
        configToCron cfg =
          js ''*/''
          @ toString (case interval_minutes cfg of None \<Rightarrow> 30 | Some k \<Rightarrow> if k = 0 then 30 else k)
          @ js '' * * * *'')
   \<and> (stype cfg = daily \<and> (time cfg = None \<or> time cfg = Some []) \<longrightarrow>
        configToCron cfg = js ''30 15 * * *'')
   \<and> (stype cfg = weekdays \<and> (time cfg = None \<or> time cfg = Some []) \<longrightarrow>
        configToCron cfg = js ''30 15 * * 1-5'')
   \<and> (s \<noteq> [] \<and> length (cronParts s) \<noteq> 5 \<longrightarrow>
        parseCronToConfig s =
          \<lparr>stype = cron, time = None, interval_minutes = None, cron_text = Some s\<rparr>
        \<and> configToCron (parseCronToConfig s) = s)
   \<and> (s \<noteq> [] \<and> cronParts s = [mi, h, d, mo, w]
        \<and> (\<not> startsWith mi (js ''*/'') \<or> parseInt (drop 2 mi) = None)
        \<and> (parseInt mi = None \<or> parseInt h = None \<or> (w \<noteq> js ''1-5'' \<and> w \<noteq> js ''*'')) \<longrightarrow>
        parseCronToConfig s =
          \<lparr>stype = cron, time = None, interval_minutes = None, cron_text = Some s\<rparr>
        \<and> configToCron (parseCronToConfig s) = s)
   \<and> (s \<noteq> [] \<and> cronParts s = [mi, h, d, mo, w]
        \<and> startsWith mi (js ''*/'') \<and> allDigits (drop 2 mi)
        \<and> parseInt (drop 2 mi) = Some n \<and> isSafeInteger n \<longrightarrow>
        parseCronToConfig s =
          \<lparr>stype = interval, time = None, interval_minutes = Some n, cron_text = None\<rparr>
        \<and> configToCron (parseCronToConfig s)
          = js ''*/'' @ toString (if n = 0 then 30 else n) @ js '' * * * *'')
   \<and> (s \<noteq> [] \<and> cronParts s = [mi, h, d, mo, w]
        \<and> allDigits mi \<and> allDigits h \<and> parseInt mi = Some m \<and> parseInt h = Some hh
        \<and> isSafeInteger m \<and> isSafeInteger hh
        \<and> d = js ''*'' \<and> mo = js ''*'' \<and> w = js ''1-5'' \<longrightarrow>
        parseCronToConfig s =
          \<lparr>stype = weekdays, time = Some (timeOf hh m), interval_minutes = None,
           cron_text = None\<rparr>
        \<and> configToCron (parseCronToConfig s)
          = toString m @ js '' '' @ toString hh @ js '' * * 1-5'')
   \<and> (s \<noteq> [] \<and> cronParts s = [mi, h, d, mo, w]
        \<and> allDigits mi \<and> allDigits h \<and> parseInt mi = Some m \<and> parseInt h = Some hh
        \<and> isSafeInteger m \<and> isSafeInteger hh
        \<and> d = js ''*'' \<and> mo = js ''*'' \<and> w = js ''*'' \<longrightarrow>
        parseCronToConfig s =
          \<lparr>stype = daily, time = Some (timeOf hh m), interval_minutes = None,
           cron_text = None\<rparr>
        \<and> configToCron (parseCronToConfig s)
          = toString m @ js '' '' @ toString hh @ js '' * * *'')"
proof (intro conjI impI)
  show "parseCronToConfig [] =
     \<lparr>stype = daily, time = Some (js ''15:30''), interval_minutes = None, cron_text = None\<rparr>"
    by (simp add: parseCronToConfig_def)
  show "configToCron (parseCronToConfig []) = js ''30 15 * * *''"
    by (simp add: cron_eval)
next
  assume "stype cfg = cron"
  then show "configToCron cfg =
          (case cron_text cfg of
             None \<Rightarrow> js ''0 15 * * *''
           | Some c \<Rightarrow> if c = [] then js ''0 15 * * *'' else c)"
    by (simp add: configToCron_def)
next
  assume "stype cfg = interval
        \<and> (case interval_minutes cfg of None \<Rightarrow> True | Some k \<Rightarrow> isSafeInteger k)"
  then show "configToCron cfg =
          js ''*/''
          @ toString (case interval_minutes cfg of None \<Rightarrow> 30 | Some k \<Rightarrow> if k = 0 then 30 else k)
          @ js '' * * * *''"
    by (simp add: configToCron_def)
next
  assume a: "stype cfg = daily \<and> (time cfg = None \<or> time cfg = Some [])"
  then have "timeParts cfg = (Some 15, Some 30)" by (simp add: timeParts_default)
  with a show "configToCron cfg = js ''30 15 * * *''"
    by (simp add: configToCron_def interpolate_def toString_def js_def)
next
  assume a: "stype cfg = weekdays \<and> (time cfg = None \<or> time cfg = Some [])"
  then have "timeParts cfg = (Some 15, Some 30)" by (simp add: timeParts_default)
  with a show "configToCron cfg = js ''30 15 * * 1-5''"
    by (simp add: configToCron_def interpolate_def toString_def js_def)
next
  assume a: "s \<noteq> [] \<and> length (cronParts s) \<noteq> 5"
  then show p: "parseCronToConfig s =
          \<lparr>stype = cron, time = None, interval_minutes = None, cron_text = Some s\<rparr>"
    by (simp add: parseCronToConfig_def Let_def)
  from a show "configToCron (parseCronToConfig s) = s"
    by (simp add: p configToCron_def)
next
  assume a: "s \<noteq> [] \<and> cronParts s = [mi, h, d, mo, w]
        \<and> (\<not> startsWith mi (js ''*/'') \<or> parseInt (drop 2 mi) = None)
        \<and> (parseInt mi = None \<or> parseInt h = None \<or> (w \<noteq> js ''1-5'' \<and> w \<noteq> js ''*''))"
  then show p: "parseCronToConfig s =
          \<lparr>stype = cron, time = None, interval_minutes = None, cron_text = Some s\<rparr>"
    by (auto simp: parseCronToConfig_def Let_def split: option.splits)
  from a show "configToCron (parseCronToConfig s) = s"
    by (simp add: p configToCron_def)
next
  assume a: "s \<noteq> [] \<and> cronParts s = [mi, h, d, mo, w]
        \<and> startsWith mi (js ''*/'') \<and> allDigits (drop 2 mi)
        \<and> parseInt (drop 2 mi) = Some n \<and> isSafeInteger n"
  then show p: "parseCronToConfig s =
          \<lparr>stype = interval, time = None, interval_minutes = Some n, cron_text = None\<rparr>"
    by (simp add: parseCronToConfig_def Let_def)
  show "configToCron (parseCronToConfig s)
          = js ''*/'' @ toString (if n = 0 then 30 else n) @ js '' * * * *''"
    by (simp add: p configToCron_def del: digits.simps)
next
  assume a: "s \<noteq> [] \<and> cronParts s = [mi, h, d, mo, w]
        \<and> allDigits mi \<and> allDigits h \<and> parseInt mi = Some m \<and> parseInt h = Some hh
        \<and> isSafeInteger m \<and> isSafeInteger hh
        \<and> d = js ''*'' \<and> mo = js ''*'' \<and> w = js ''1-5''"
  then have "\<not> startsWith mi (js ''*/'')" by (simp add: allDigits_not_interval)
  with a show p: "parseCronToConfig s =
          \<lparr>stype = weekdays, time = Some (timeOf hh m), interval_minutes = None,
           cron_text = None\<rparr>"
    by (simp add: parseCronToConfig_def Let_def)
  show "configToCron (parseCronToConfig s)
          = toString m @ js '' '' @ toString hh @ js '' * * 1-5''"
    unfolding p by (rule configToCron_timeOf(2))
next
  assume a: "s \<noteq> [] \<and> cronParts s = [mi, h, d, mo, w]
        \<and> allDigits mi \<and> allDigits h \<and> parseInt mi = Some m \<and> parseInt h = Some hh
        \<and> isSafeInteger m \<and> isSafeInteger hh
        \<and> d = js ''*'' \<and> mo = js ''*'' \<and> w = js ''*''"
  then have "\<not> startsWith mi (js ''*/'')" by (simp add: allDigits_not_interval)
  moreover have "js ''*'' \<noteq> js ''1-5''" by (simp add: js_def)
  ultimately show p: "parseCronToConfig s =
          \<lparr>stype = daily, time = Some (timeOf hh m), interval_minutes = None,
           cron_text = None\<rparr>"
    using a by (simp add: parseCronToConfig_def Let_def)
  show "configToCron (parseCronToConfig s)
          = toString m @ js '' '' @ toString hh @ js '' * * *''"
    unfolding p by (rule configToCron_timeOf(1))
qed


theorem schedule_defaults_and_kept_expressions_witness:
  "length (cronParts (js ''every day at 9'')) \<noteq> 5
   \<and> cronParts (js ''30 15 * * 3'') = [js ''30'', js ''15'', js ''*'', js ''*'', js ''3'']
   \<and> parseInt (js ''30'') = Some 30 \<and> parseInt (js ''15'') = Some 15
   \<and> cronParts (js ''*/0 9 * * 1-5'') = [js ''*/0'', js ''9'', js ''*'', js ''*'', js ''1-5'']
   \<and> startsWith (js ''*/0'') (js ''*/'') \<and> parseInt (drop 2 (js ''*/0'')) = Some 0
   \<and> cronParts (js ''05 09 * * 1-5'') = [js ''05'', js ''09'', js ''*'', js ''*'', js ''1-5'']
   \<and> parseInt (js ''05'') = Some 5 \<and> parseInt (js ''09'') = Some 9
   \<and> configToCron (parseCronToConfig (js ''every day at 9'')) = js ''every day at 9''
   \<and> configToCron (parseCronToConfig (js ''30 15 * * 3'')) = js ''30 15 * * 3''
   \<and> configToCron (parseCronToConfig (js ''*/0 9 * * 1-5'')) = js ''*/30 * * * *''
   \<and> configToCron (parseCronToConfig (js ''05 09 * * 1-5'')) = js ''5 9 * * 1-5''
   \<and> configToCron (parseCronToConfig (js ''30 15 * * *'')) = js ''30 15 * * *''
   \<and> configToCron
        \<lparr>stype = cron, time = Some (js ''08:00''), interval_minutes = Some 5,
         cron_text = Some []\<rparr> = js ''0 15 * * *''
   \<and> configToCron
        \<lparr>stype = interval, time = None, interval_minutes = Some 0, cron_text = None\<rparr>
       = js ''*/30 * * * *''
   \<and> configToCron
        \<lparr>stype = weekdays, time = Some [], interval_minutes = None, cron_text = None\<rparr>
       = js ''30 15 * * 1-5''"
proof -
  let ?c1 = "\<lparr>stype = cron, time = Some (js ''08:00''), interval_minutes = Some 5,
         cron_text = Some []\<rparr>"
  let ?c2 = "\<lparr>stype = interval, time = None, interval_minutes = Some 0, cron_text = None\<rparr>"
  let ?c3 = "\<lparr>stype = weekdays, time = Some [], interval_minutes = None, cron_text = None\<rparr>"
  have star: "js ''*'' = [42]" by (simp add: js_def)
  \<comment> \<open>an expression that does not have five parts\<close>
  have h1: "js ''every day at 9'' \<noteq> [] \<and> length (cronParts (js ''every day at 9'')) \<noteq> 5"
    by (simp add: js_eval)
  note t1 = schedule_defaults_and_kept_expressions[where s = "js ''every day at 9''"
      and cfg = ?c1 and mi = "[]" and h = "[]" and d = "[]" and mo = "[]" and w = "[]"
      and n = 0 and m = 0 and hh = 0]
  have r1: "configToCron (parseCronToConfig (js ''every day at 9''))
      = js ''every day at 9''"
    by (rule t1[THEN conjunct2, THEN conjunct2, THEN conjunct2, THEN conjunct2, THEN conjunct2, THEN conjunct2, THEN conjunct1, THEN mp, OF h1, THEN conjunct2])
  \<comment> \<open>the defaults of a configuration\<close>
  have k1: "stype ?c1 = cron" by simp
  have "configToCron ?c1 =
      (case cron_text ?c1 of None \<Rightarrow> js ''0 15 * * *''
       | Some c \<Rightarrow> if c = [] then js ''0 15 * * *'' else c)"
    by (rule t1[THEN conjunct2, THEN conjunct2, THEN conjunct1, THEN mp, OF k1])
  then have r6: "configToCron ?c1 = js ''0 15 * * *''" by simp
  note t2 = schedule_defaults_and_kept_expressions[where s = "js ''every day at 9''"
      and cfg = ?c2 and mi = "[]" and h = "[]" and d = "[]" and mo = "[]" and w = "[]"
      and n = 0 and m = 0 and hh = 0]
  have k2: "stype ?c2 = interval
      \<and> (case interval_minutes ?c2 of None \<Rightarrow> True | Some k \<Rightarrow> isSafeInteger k)"
    by (simp add: isSafeInteger_def)
  have "configToCron ?c2 =
      js ''*/''
      @ toString (case interval_minutes ?c2 of None \<Rightarrow> 30 | Some k \<Rightarrow> if k = 0 then 30 else k)
      @ js '' * * * *''"
    by (rule t2[THEN conjunct2, THEN conjunct2, THEN conjunct2, THEN conjunct1, THEN mp, OF k2])
  then have r7: "configToCron ?c2 = js ''*/30 * * * *''"
    by (simp add: toString_def js_def)
  note t3 = schedule_defaults_and_kept_expressions[where s = "js ''every day at 9''"
      and cfg = ?c3 and mi = "[]" and h = "[]" and d = "[]" and mo = "[]" and w = "[]"
      and n = 0 and m = 0 and hh = 0]
  have k3: "stype ?c3 = weekdays \<and> (time ?c3 = None \<or> time ?c3 = Some [])" by simp
  have r8: "configToCron ?c3 = js ''30 15 * * 1-5''"
    by (rule t3[THEN conjunct2, THEN conjunct2, THEN conjunct2, THEN conjunct2, THEN conjunct2, THEN conjunct1, THEN mp, OF k3])
  \<comment> \<open>five parts, not recognised: the day of the week is 3\<close>
  have h2: "js ''30 15 * * 3'' \<noteq> []
      \<and> cronParts (js ''30 15 * * 3'') = [js ''30'', js ''15'', js ''*'', js ''*'', js ''3'']
      \<and> (\<not> startsWith (js ''30'') (js ''*/'') \<or> parseInt (drop 2 (js ''30'')) = None)
      \<and> (parseInt (js ''30'') = None \<or> parseInt (js ''15'') = None
         \<or> (js ''3'' \<noteq> js ''1-5'' \<and> js ''3'' \<noteq> js ''*''))"
    by (simp add: js_eval)
  note t4 = schedule_defaults_and_kept_expressions[where s = "js ''30 15 * * 3''"
      and cfg = ?c1 and mi = "js ''30''" and h = "js ''15''" and d = "js ''*''"
      and mo = "js ''*''" and w = "js ''3''" and n = 0 and m = 30 and hh = 15]
  have r2: "configToCron (parseCronToConfig (js ''30 15 * * 3'')) = js ''30 15 * * 3''"
    by (rule t4[THEN conjunct2, THEN conjunct2, THEN conjunct2, THEN conjunct2, THEN conjunct2, THEN conjunct2, THEN conjunct2, THEN conjunct1, THEN mp, OF h2, THEN conjunct2])
  \<comment> \<open>the interval 0\<close>
  have h3: "js ''*/0 9 * * 1-5'' \<noteq> []
      \<and> cronParts (js ''*/0 9 * * 1-5'') = [js ''*/0'', js ''9'', js ''*'', js ''*'', js ''1-5'']
      \<and> startsWith (js ''*/0'') (js ''*/'') \<and> allDigits (drop 2 (js ''*/0''))
      \<and> parseInt (drop 2 (js ''*/0'')) = Some 0 \<and> isSafeInteger 0"
    by (simp add: js_eval allDigits_def isSafeInteger_def)
  note t5 = schedule_defaults_and_kept_expressions[where s = "js ''*/0 9 * * 1-5''"
      and cfg = ?c1 and mi = "js ''*/0''" and h = "js ''9''" and d = "js ''*''"
      and mo = "js ''*''" and w = "js ''1-5''" and n = 0 and m = 0 and hh = 0]
  have "configToCron (parseCronToConfig (js ''*/0 9 * * 1-5''))
      = js ''*/'' @ toString (if (0::int) = 0 then 30 else 0) @ js '' * * * *''"
    by (rule t5[THEN conjunct2, THEN conjunct2, THEN conjunct2, THEN conjunct2, THEN conjunct2, THEN conjunct2, THEN conjunct2, THEN conjunct2, THEN conjunct1, THEN mp, OF h3, THEN conjunct2])
  then have r3: "configToCron (parseCronToConfig (js ''*/0 9 * * 1-5'')) = js ''*/30 * * * *''"
    by (simp add: toString_def js_def)
  \<comment> \<open>a weekday schedule\<close>
  have h4: "js ''05 09 * * 1-5'' \<noteq> []
      \<and> cronParts (js ''05 09 * * 1-5'') = [js ''05'', js ''09'', js ''*'', js ''*'', js ''1-5'']
      \<and> allDigits (js ''05'') \<and> allDigits (js ''09'')
      \<and> parseInt (js ''05'') = Some 5 \<and> parseInt (js ''09'') = Some 9
      \<and> isSafeInteger 5 \<and> isSafeInteger 9
      \<and> js ''*'' = js ''*'' \<and> js ''*'' = js ''*'' \<and> js ''1-5'' = js ''1-5''"
    by (simp add: js_eval allDigits_def isSafeInteger_def)
  note t6 = schedule_defaults_and_kept_expressions[where s = "js ''05 09 * * 1-5''"
      and cfg = ?c1 and mi = "js ''05''" and h = "js ''09''" and d = "js ''*''"
      and mo = "js ''*''" and w = "js ''1-5''" and n = 0 and m = 5 and hh = 9]
  have "configToCron (parseCronToConfig (js ''05 09 * * 1-5''))
      = toString 5 @ js '' '' @ toString 9 @ js '' * * 1-5''"
    by (rule t6[THEN conjunct2, THEN conjunct2, THEN conjunct2, THEN conjunct2, THEN conjunct2, THEN conjunct2, THEN conjunct2, THEN conjunct2, THEN conjunct2, THEN conjunct1, THEN mp, OF h4, THEN conjunct2])
  then have r4: "configToCron (parseCronToConfig (js ''05 09 * * 1-5'')) = js ''5 9 * * 1-5''"
    by (simp add: toString_def js_def)
  \<comment> \<open>a daily schedule\<close>
  have h5: "js ''30 15 * * *'' \<noteq> []
      \<and> cronParts (js ''30 15 * * *'') = [js ''30'', js ''15'', js ''*'', js ''*'', js ''*'']
      \<and> allDigits (js ''30'') \<and> allDigits (js ''15'')
      \<and> parseInt (js ''30'') = Some 30 \<and> parseInt (js ''15'') = Some 15
      \<and> isSafeInteger 30 \<and> isSafeInteger 15
      \<and> js ''*'' = js ''*'' \<and> js ''*'' = js ''*'' \<and> js ''*'' = js ''*''"
    by (simp add: js_eval allDigits_def isSafeInteger_def)
  note t7 = schedule_defaults_and_kept_expressions[where s = "js ''30 15 * * *''"
      and cfg = ?c1 and mi = "js ''30''" and h = "js ''15''" and d = "js ''*''"
      and mo = "js ''*''" and w = "js ''*''" and n = 0 and m = 30 and hh = 15]
  have "configToCron (parseCronToConfig (js ''30 15 * * *''))
      = toString 30 @ js '' '' @ toString 15 @ js '' * * *''"
    by (rule t7[THEN conjunct2, THEN conjunct2, THEN conjunct2, THEN conjunct2, THEN conjunct2, THEN conjunct2, THEN conjunct2, THEN conjunct2, THEN conjunct2, THEN conjunct2, THEN mp, OF h5, THEN conjunct2])
  then have r5: "configToCron (parseCronToConfig (js ''30 15 * * *'')) = js ''30 15 * * *''"
    by (simp add: toString_def js_def)
  have e1: "length (cronParts (js ''every day at 9'')) \<noteq> 5"
    by (simp add: js_eval)
  have e2: "cronParts (js ''30 15 * * 3'') = [js ''30'', js ''15'', js ''*'', js ''*'', js ''3'']"
    by (simp add: js_eval)
  have e3: "parseInt (js ''30'') = Some 30" by (simp add: js_eval)
  have e4: "parseInt (js ''15'') = Some 15" by (simp add: js_eval)
  have e5: "cronParts (js ''*/0 9 * * 1-5'')
      = [js ''*/0'', js ''9'', js ''*'', js ''*'', js ''1-5'']"
    by (simp add: js_eval)
  have e6: "startsWith (js ''*/0'') (js ''*/'')" by (simp add: js_eval)
  have e7: "parseInt (drop 2 (js ''*/0'')) = Some 0" by (simp add: js_eval)
  have e8: "cronParts (js ''05 09 * * 1-5'')
      = [js ''05'', js ''09'', js ''*'', js ''*'', js ''1-5'']"
    by (simp add: js_eval)
  have e9: "parseInt (js ''05'') = Some 5" by (simp add: js_eval)
  have e10: "parseInt (js ''09'') = Some 9" by (simp add: js_eval)
  show ?thesis
    by (intro conjI) (fact e1 e2 e3 e4 e5 e6 e7 e8 e9 e10 r1 r2 r3 r4 r5 r6 r7 r8)+
qed

text \<open>
  Claim C5 as stated fails: the empty schedule expression is not reported, it is
  replaced by the default daily schedule, and the interval \<open>*/0\<close> is replaced by the
  default interval of 30 minutes.
\<close>

theorem empty_schedule_silently_defaulted:
  "parseCronToConfig (js '''') =
     \<lparr>stype = daily, time = Some (js ''15:30''), interval_minutes = None, cron_text = None\<rparr>
   \<and> configToCron (parseCronToConfig (js '''')) = js ''30 15 * * *''
   \<and> configToCron (parseCronToConfig (js ''*/0 * * * *'')) = js ''*/30 * * * *''"
  by (simp add: cron_eval)

text \<open>
  Claim C1 at the input \<open>30 15 1 * *\<close> (15:30 on the first day of every month): the
  parser reads it as the daily schedule 15:30, and writing that back gives
  \<open>30 15 * * *\<close>. On 2 January 2024 at 15:30 the original is not due and the result of
  the round trip is due.
\<close>

theorem roundtrip_drops_day_of_month:
  "parseCronToConfig (js ''30 15 1 * *'') =
     \<lparr>stype = daily, time = Some (js ''15:30''), interval_minutes = None, cron_text = None\<rparr>
   \<and> configToCron (parseCronToConfig (js ''30 15 1 * *'')) = js ''30 15 * * *''
   \<and> dueAt (js ''30 15 1 * *'') tuesday_1530 = Inr False
   \<and> dueAt (configToCron (parseCronToConfig (js ''30 15 1 * *''))) tuesday_1530 = Inr True"
proof -
  have p: "parseCronToConfig (js ''30 15 1 * *'') =
     \<lparr>stype = daily, time = Some (js ''15:30''), interval_minutes = None, cron_text = None\<rparr>"
    by (simp add: cron_eval)
  have rt: "configToCron (parseCronToConfig (js ''30 15 1 * *'')) = js ''30 15 * * *''"
    by (simp add: cron_eval)
  have d1: "dueAt (js ''30 15 1 * *'') tuesday_1530 = Inr False"
    by (simp add: js_eval due_eval)
  have d2: "dueAt (js ''30 15 * * *'') tuesday_1530 = Inr True"
    by (simp add: js_eval due_eval)
  have d3: "dueAt (configToCron (parseCronToConfig (js ''30 15 1 * *''))) tuesday_1530 = Inr True"
    by (simp only: rt d2)
  show ?thesis by (intro conjI p rt d1 d3)
qed


text \<open>
  The same reading loses a range of hours: \<^verbatim>\<open>parseInt('9-15')\<close> is 9, so the schedule
  \<open>0 9-15 * * *\<close> (on the hour from 9:00 to 15:00) comes back as \<open>0 9 * * *\<close>.
\<close>

lemma roundtrip_drops_hour_range:
  "configToCron (parseCronToConfig (js ''0 9-15 * * *'')) = js ''0 9 * * *''"
  by (simp add: cron_eval)

text \<open>
  The strings the dialog itself writes come back unchanged, and white space around an
  expression is dropped.
\<close>

lemma roundtrip_examples:
  "configToCron (parseCronToConfig (js ''30 15 * * *'')) = js ''30 15 * * *''"
  "configToCron (parseCronToConfig (js ''0 9 * * 1-5'')) = js ''0 9 * * 1-5''"
  "configToCron (parseCronToConfig (js ''*/5 * * * *'')) = js ''*/5 * * * *''"
  "configToCron (parseCronToConfig (js ''  05 09 * * 1-5 '')) = js ''5 9 * * 1-5''"
  "configToCron (parseCronToConfig (js ''30 15 * * 3'')) = js ''30 15 * * 3''"
  by (simp_all add: cron_eval)

subsection \<open>The data sources page\<close>

text \<open>
  Claim C10. Every update that \<^verbatim>\<open>saveSource\<close> sends (it sends one whenever \<^verbatim>\<open>editId\<close> is
  neither null nor 0) carries a body with exactly the two properties \<open>priority\<close> and
  \<open>test_symbols\<close>, in particular none of \<open>name\<close>, \<open>type\<close>, \<open>provider\<close>, \<open>config\<close> and
  \<open>enabled\<close>; the priority is the form's, and every submitted test symbol is a non-empty
  string that holds no comma, no fullwidth comma and no white space.
\<close>

theorem saveSource_payload:
  assumes "editId st = Some i" and "i \<noteq> 0"
  shows "\<exists>r. saveSource st = Some r
       \<and> req_method r = PUT
       \<and> req_url r = js ''/datasources/'' @ toString i
       \<and> req_body r = Some (JObj
             [(js ''priority'', JNum (ds_priority (form st))),
              (js ''test_symbols'', JArr (map JStr (testSymbolsOf (testSymbolsInput st))))])
       \<and> bodyKeys r = [js ''priority'', js ''test_symbols'']
       \<and> js ''name'' \<notin> set (bodyKeys r) \<and> js ''type'' \<notin> set (bodyKeys r)
       \<and> js ''provider'' \<notin> set (bodyKeys r) \<and> js ''config'' \<notin> set (bodyKeys r)
       \<and> js ''enabled'' \<notin> set (bodyKeys r)
       \<and> list_all (\<lambda>s. s \<noteq> [] \<and> list_all (\<lambda>c. \<not> isSymbolSep c) s)
             (testSymbolsOf (testSymbolsInput st))"
proof -
  let ?r = "\<lparr>req_method = PUT, req_url = js ''/datasources/'' @ toString i,
             req_body = Some (JObj
               [(js ''priority'', JNum (ds_priority (form st))),
                (js ''test_symbols'', JArr (map JStr (testSymbolsOf (testSymbolsInput st))))])\<rparr>"
  have r: "saveSource st = Some ?r"
    using assms by (simp add: saveSource_def)
  have keys: "bodyKeys ?r = [js ''priority'', js ''test_symbols'']"
    by (simp add: bodyKeys_def)
  have others: "js ''name'' \<notin> set (bodyKeys ?r) \<and> js ''type'' \<notin> set (bodyKeys ?r)
       \<and> js ''provider'' \<notin> set (bodyKeys ?r) \<and> js ''config'' \<notin> set (bodyKeys ?r)
       \<and> js ''enabled'' \<notin> set (bodyKeys ?r)"
    unfolding keys by (simp add: js_def)
  show ?thesis
    using r keys others testSymbolsOf_clean[of "testSymbolsInput st"] by simp
qed

theorem saveSource_payload_witness:
  "editId page0 = Some 7
   \<and> saveSource page0 =
       Some \<lparr>req_method = PUT, req_url = js ''/datasources/7'',
             req_body = Some (JObj
               [(js ''priority'', JNum 2),
                (js ''test_symbols'', JArr [JStr (js ''601127''), JStr (js ''600519'')])])\<rparr>
   \<and> (\<exists>r. saveSource page0 = Some r \<and> bodyKeys r = [js ''priority'', js ''test_symbols''])"
proof -
  have e: "editId page0 = Some 7" by (simp add: page0_def)
  have s: "saveSource page0 =
       Some \<lparr>req_method = PUT, req_url = js ''/datasources/7'',
             req_body = Some (JObj
               [(js ''priority'', JNum 2),
                (js ''test_symbols'', JArr [JStr (js ''601127''), JStr (js ''600519'')])])\<rparr>"
    by (simp add: page0_def saveSource_def testSymbolsOf_def isSymbolSep_def js_eval)
  from saveSource_payload[OF e] have
    "\<exists>r. saveSource page0 = Some r \<and> bodyKeys r = [js ''priority'', js ''test_symbols'']"
    by auto
  with e s show ?thesis by simp
qed

subsection \<open>The per-stock agent bindings\<close>

text \<open>
  Claim C9. \<^verbatim>\<open>toggleAgent\<close> sends one \<^verbatim>\<open>PUT /stocks/${stock.id}/agents\<close> whose body is the
  object \<open>{agents: [...]}\<close> with one object of the four properties \<open>agent_name\<close>,
  \<open>schedule\<close>, \<open>ai_model_id\<close> and \<open>notify_channel_ids\<close> for every binding of the new list.
  The old list is \<^verbatim>\<open>stock.agents\<close>, or the empty list when the stock has none.
  When the stock is not yet bound to the agent, the new list is the old list followed by
  one binding for that agent, submitted with the empty string as schedule, \<open>null\<close> as
  model and the empty array as channels. When it is bound, the new list is the old list
  without the bindings of that agent: no binding of the agent is left, and the bindings
  of every other agent are submitted unchanged and in their old order.
\<close>

theorem toggleAgent_enrol_unenrol:
  "req_method (toggleAgent stock agentName) = PUT
   \<and> (isSafeInteger (stock_id stock) \<longrightarrow>
        req_url (toggleAgent stock agentName)
        = js ''/stocks/'' @ toString (stock_id stock) @ js ''/agents'')
   \<and> currentAgents stock = (case agents stock of None \<Rightarrow> [] | Some bs \<Rightarrow> bs)
   \<and> req_body (toggleAgent stock agentName) =
       Some (JObj [(js ''agents'', JArr
         (map (\<lambda>a. JObj
                [(js ''agent_name'', JStr (agent_name a)),
                 (js ''schedule'', JStr (schedule a)),
                 (js ''ai_model_id'', (case ai_model_id a of None \<Rightarrow> JNull | Some m \<Rightarrow> JNum m)),
                 (js ''notify_channel_ids'', JArr (map JNum (notify_channel_ids a)))])
            (toggleAgent_newAgents stock agentName)))])
   \<and> (if list_ex (\<lambda>a. agent_name a = agentName) (currentAgents stock)
      then filter (\<lambda>a. agent_name a = agentName) (toggleAgent_newAgents stock agentName) = []
         \<and> filter (\<lambda>a. agent_name a \<noteq> agentName) (toggleAgent_newAgents stock agentName)
           = filter (\<lambda>a. agent_name a \<noteq> agentName) (currentAgents stock)
         \<and> toggleAgent_newAgents stock agentName
           = filter (\<lambda>a. agent_name a \<noteq> agentName) (currentAgents stock)
      else toggleAgent_newAgents stock agentName
           = currentAgents stock @
             [\<lparr>agent_name = agentName, schedule = [], ai_model_id = None,
               notify_channel_ids = []\<rparr>]
         \<and> req_body (toggleAgent stock agentName) =
             Some (JObj [(js ''agents'', JArr
               (map (\<lambda>a. JObj
                      [(js ''agent_name'', JStr (agent_name a)),
                       (js ''schedule'', JStr (schedule a)),
                       (js ''ai_model_id'',
                        (case ai_model_id a of None \<Rightarrow> JNull | Some m \<Rightarrow> JNum m)),
                       (js ''notify_channel_ids'', JArr (map JNum (notify_channel_ids a)))])
                  (currentAgents stock) @
                [JObj
                  [(js ''agent_name'', JStr agentName),
                   (js ''schedule'', JStr []),
                   (js ''ai_model_id'', JNull),
                   (js ''notify_channel_ids'', JArr [])]]))]))"
proof (intro conjI)
  show "req_method (toggleAgent stock agentName) = PUT"
    by (simp add: toggleAgent_def putStockAgents_def)
  show "isSafeInteger (stock_id stock) \<longrightarrow>
        req_url (toggleAgent stock agentName)
        = js ''/stocks/'' @ toString (stock_id stock) @ js ''/agents''"
    by (simp add: toggleAgent_def putStockAgents_def)
  show "currentAgents stock = (case agents stock of None \<Rightarrow> [] | Some bs \<Rightarrow> bs)"
    by (simp add: currentAgents_def)
  have ser: "agent_json = (\<lambda>a. JObj
                [(js ''agent_name'', JStr (agent_name a)),
                 (js ''schedule'', JStr (schedule a)),
                 (js ''ai_model_id'', (case ai_model_id a of None \<Rightarrow> JNull | Some m \<Rightarrow> JNum m)),
                 (js ''notify_channel_ids'', JArr (map JNum (notify_channel_ids a)))])"
    by (rule ext) (simp add: agent_json_def)
  show "req_body (toggleAgent stock agentName) =
       Some (JObj [(js ''agents'', JArr
         (map (\<lambda>a. JObj
                [(js ''agent_name'', JStr (agent_name a)),
                 (js ''schedule'', JStr (schedule a)),
                 (js ''ai_model_id'', (case ai_model_id a of None \<Rightarrow> JNull | Some m \<Rightarrow> JNum m)),
                 (js ''notify_channel_ids'', JArr (map JNum (notify_channel_ids a)))])
            (toggleAgent_newAgents stock agentName)))])"
    unfolding ser[symmetric] by (simp add: toggleAgent_def putStockAgents_def)
  show "if list_ex (\<lambda>a. agent_name a = agentName) (currentAgents stock)
      then filter (\<lambda>a. agent_name a = agentName) (toggleAgent_newAgents stock agentName) = []
         \<and> filter (\<lambda>a. agent_name a \<noteq> agentName) (toggleAgent_newAgents stock agentName)
           = filter (\<lambda>a. agent_name a \<noteq> agentName) (currentAgents stock)
         \<and> toggleAgent_newAgents stock agentName
           = filter (\<lambda>a. agent_name a \<noteq> agentName) (currentAgents stock)
      else toggleAgent_newAgents stock agentName
           = currentAgents stock @
             [\<lparr>agent_name = agentName, schedule = [], ai_model_id = None,
               notify_channel_ids = []\<rparr>]
         \<and> req_body (toggleAgent stock agentName) =
             Some (JObj [(js ''agents'', JArr
               (map (\<lambda>a. JObj
                      [(js ''agent_name'', JStr (agent_name a)),
                       (js ''schedule'', JStr (schedule a)),
                       (js ''ai_model_id'',
                        (case ai_model_id a of None \<Rightarrow> JNull | Some m \<Rightarrow> JNum m)),
                       (js ''notify_channel_ids'', JArr (map JNum (notify_channel_ids a)))])
                  (currentAgents stock) @
                [JObj
                  [(js ''agent_name'', JStr agentName),
                   (js ''schedule'', JStr []),
                   (js ''ai_model_id'', JNull),
                   (js ''notify_channel_ids'', JArr [])]]))])"
    unfolding ser[symmetric]
    by (simp add: toggleAgent_def putStockAgents_def toggleAgent_newAgents_def Let_def js_empty
        filter_empty_conv agent_json_def)
qed

theorem toggleAgent_enrol_unenrol_witness:
  "req_method (toggleAgent stock0 (js ''news_digest'')) = PUT
   \<and> isSafeInteger (stock_id stock0)
   \<and> req_url (toggleAgent stock0 (js ''news_digest'')) = js ''/stocks/12/agents''
   \<and> toggleAgent_newAgents stock0 (js ''intraday_monitor'') = [dailyBinding]
   \<and> req_body (toggleAgent stock0 (js ''intraday_monitor'')) =
       Some (JObj [(js ''agents'', JArr
         [JObj
           [(js ''agent_name'', JStr (js ''daily_report'')),
            (js ''schedule'', JStr (js ''0 18 * * 1-5'')),
            (js ''ai_model_id'', JNum 2),
            (js ''notify_channel_ids'', JArr [JNum 1])]])])
   \<and> toggleAgent_newAgents stock0 (js ''news_digest'') =
       [dailyBinding, intradayBinding,
        \<lparr>agent_name = js ''news_digest'', schedule = [], ai_model_id = None,
         notify_channel_ids = []\<rparr>]
   \<and> req_body (toggleAgent stock0 (js ''news_digest'')) =
       Some (JObj [(js ''agents'', JArr
         [JObj
           [(js ''agent_name'', JStr (js ''daily_report'')),
            (js ''schedule'', JStr (js ''0 18 * * 1-5'')),
            (js ''ai_model_id'', JNum 2),
            (js ''notify_channel_ids'', JArr [JNum 1])],
          JObj
           [(js ''agent_name'', JStr (js ''intraday_monitor'')),
            (js ''schedule'', JStr []),
            (js ''ai_model_id'', JNull),
            (js ''notify_channel_ids'', JArr [])],
          JObj
           [(js ''agent_name'', JStr (js ''news_digest'')),
            (js ''schedule'', JStr []),
            (js ''ai_model_id'', JNull),
            (js ''notify_channel_ids'', JArr [])]])])"
proof -
  note t1 = toggleAgent_enrol_unenrol[of stock0 "js ''intraday_monitor''"]
  note t2 = toggleAgent_enrol_unenrol[of stock0 "js ''news_digest''"]
  have a: "list_ex (\<lambda>a. agent_name a = js ''intraday_monitor'') (currentAgents stock0)"
    by (simp add: currentAgents_def stock0_def dailyBinding_def intradayBinding_def js_def)
  have b: "\<not> list_ex (\<lambda>a. agent_name a = js ''news_digest'') (currentAgents stock0)"
    by (simp add: currentAgents_def stock0_def dailyBinding_def intradayBinding_def js_def)
  have c: "filter (\<lambda>a. agent_name a \<noteq> js ''intraday_monitor'') (currentAgents stock0)
      = [dailyBinding]"
    by (simp add: currentAgents_def stock0_def dailyBinding_def intradayBinding_def js_def)
  have d: "currentAgents stock0 = [dailyBinding, intradayBinding]"
    by (simp add: currentAgents_def stock0_def)
  have id: "js ''/stocks/'' @ toString (stock_id stock0) @ js ''/agents'' = js ''/stocks/12/agents''"
    by (simp add: stock0_def toString_def js_def)
  from t2 have m: "req_method (toggleAgent stock0 (js ''news_digest'')) = PUT"
    by (rule conjunct1)
  have safe: "isSafeInteger (stock_id stock0)" by (simp add: stock0_def isSafeInteger_def)
  have "req_url (toggleAgent stock0 (js ''news_digest''))
      = js ''/stocks/'' @ toString (stock_id stock0) @ js ''/agents''"
    by (rule t2[THEN conjunct2, THEN conjunct1, THEN mp, OF safe])
  with id have u: "req_url (toggleAgent stock0 (js ''news_digest'')) = js ''/stocks/12/agents''"
    by simp
  note i1 = t1[THEN conjunct2, THEN conjunct2, THEN conjunct2, THEN conjunct2,
      unfolded if_P[OF a], THEN conjunct2, THEN conjunct2]
  from i1 c have n1: "toggleAgent_newAgents stock0 (js ''intraday_monitor'') = [dailyBinding]"
    by (rule trans)
  have "req_body (toggleAgent stock0 (js ''intraday_monitor'')) =
       Some (JObj [(js ''agents'', JArr
         (map (\<lambda>a. JObj
                [(js ''agent_name'', JStr (agent_name a)),
                 (js ''schedule'', JStr (schedule a)),
                 (js ''ai_model_id'', (case ai_model_id a of None \<Rightarrow> JNull | Some m \<Rightarrow> JNum m)),
                 (js ''notify_channel_ids'', JArr (map JNum (notify_channel_ids a)))])
            (toggleAgent_newAgents stock0 (js ''intraday_monitor''))))])"
    by (rule t1[THEN conjunct2, THEN conjunct2, THEN conjunct2, THEN conjunct1])
  then have b1: "req_body (toggleAgent stock0 (js ''intraday_monitor'')) =
       Some (JObj [(js ''agents'', JArr
         [JObj
           [(js ''agent_name'', JStr (js ''daily_report'')),
            (js ''schedule'', JStr (js ''0 18 * * 1-5'')),
            (js ''ai_model_id'', JNum 2),
            (js ''notify_channel_ids'', JArr [JNum 1])]])])"
    unfolding n1 by (simp add: dailyBinding_def)
  note i2 = t2[THEN conjunct2, THEN conjunct2, THEN conjunct2, THEN conjunct2,
      unfolded if_not_P[OF b], THEN conjunct1]
  have n2: "toggleAgent_newAgents stock0 (js ''news_digest'') =
       [dailyBinding, intradayBinding,
        \<lparr>agent_name = js ''news_digest'', schedule = [], ai_model_id = None,
         notify_channel_ids = []\<rparr>]"
    using i2 unfolding d by simp
  have "req_body (toggleAgent stock0 (js ''news_digest'')) =
       Some (JObj [(js ''agents'', JArr
         (map (\<lambda>a. JObj
                [(js ''agent_name'', JStr (agent_name a)),
                 (js ''schedule'', JStr (schedule a)),
                 (js ''ai_model_id'', (case ai_model_id a of None \<Rightarrow> JNull | Some m \<Rightarrow> JNum m)),
                 (js ''notify_channel_ids'', JArr (map JNum (notify_channel_ids a)))])
            (toggleAgent_newAgents stock0 (js ''news_digest''))))])"
    by (rule t2[THEN conjunct2, THEN conjunct2, THEN conjunct2, THEN conjunct1])
  then have b2: "req_body (toggleAgent stock0 (js ''news_digest'')) =
       Some (JObj [(js ''agents'', JArr
         [JObj
           [(js ''agent_name'', JStr (js ''daily_report'')),
            (js ''schedule'', JStr (js ''0 18 * * 1-5'')),
            (js ''ai_model_id'', JNum 2),
            (js ''notify_channel_ids'', JArr [JNum 1])],
          JObj
           [(js ''agent_name'', JStr (js ''intraday_monitor'')),
            (js ''schedule'', JStr []),
            (js ''ai_model_id'', JNull),
            (js ''notify_channel_ids'', JArr [])],
          JObj
           [(js ''agent_name'', JStr (js ''news_digest'')),
            (js ''schedule'', JStr []),
            (js ''ai_model_id'', JNull),
            (js ''notify_channel_ids'', JArr [])]])])"
    unfolding n2 by (simp add: dailyBinding_def intradayBinding_def)
  from m safe u n1 b1 n2 b2 show ?thesis by (intro conjI)
qed

subsection \<open>ConfigResolver\<close>

text \<open>
  What the schedule select shows for a binding is what it stores again: an empty
  schedule is shown as \<open>__default__\<close> and stored as the empty string.
\<close>

lemma scheduleSelect_roundtrip:
  "schedule a \<noteq> js ''__default__'' \<Longrightarrow> scheduleOfSelect (scheduleSelectValue (Some a)) = schedule a"
  by (simp add: scheduleOfSelect_def scheduleSelectValue_def)

lemma updated_binding_schedule:
  assumes "b \<in> set (updateStockAgentSchedule_newAgents stock agentName sched)"
    and "agent_name b = agentName"
  shows "schedule b = sched"
proof -
  from assms(1) obtain a where
    b: "b = (if agent_name a = agentName then a\<lparr>schedule := sched\<rparr> else a)"
    unfolding updateStockAgentSchedule_newAgents_def by (auto simp only: set_map)
  show ?thesis
  proof (cases "agent_name a = agentName")
    case True
    with b show ?thesis by simp
  next
    case False
    with b assms(2) show ?thesis by simp
  qed
qed

text \<open>
  Claim C3. With no runtime override of the schedule, a binding whose schedule is the
  empty string resolves to the agent's default schedule and a binding whose schedule is
  not empty resolves to its own. The entry \<open>__default__\<close> of the schedule select is
  stored as the empty string, so the binding that \<^verbatim>\<open>updateStockAgentSchedule\<close> submits for
  the agent after that choice inherits the agent's default.
\<close>

theorem resolve_schedule_precedence:
  assumes "override_schedule runtimeOverride = None"
  shows "resolved_schedule (resolve agentDefault (Some binding) runtimeOverride) =
           (if schedule binding = [] then default_schedule agentDefault else schedule binding)
       \<and> list_all
           (\<lambda>b. resolved_schedule (resolve agentDefault (Some b) runtimeOverride)
                  = default_schedule agentDefault)
           (filter (\<lambda>b. agent_name b = agentName)
              (updateStockAgentSchedule_newAgents stock agentName
                 (scheduleOfSelect (js ''__default__''))))"
proof
  show "resolved_schedule (resolve agentDefault (Some binding) runtimeOverride) =
           (if schedule binding = [] then default_schedule agentDefault else schedule binding)"
    using assms by (simp add: resolve_def)
  have s: "scheduleOfSelect (js ''__default__'') = []"
    by (simp add: scheduleOfSelect_def)
  show "list_all
           (\<lambda>b. resolved_schedule (resolve agentDefault (Some b) runtimeOverride)
                  = default_schedule agentDefault)
           (filter (\<lambda>b. agent_name b = agentName)
              (updateStockAgentSchedule_newAgents stock agentName
                 (scheduleOfSelect (js ''__default__''))))"
    unfolding s list_all_iff
  proof
    fix b
    assume "b \<in> set (filter (\<lambda>b. agent_name b = agentName)
              (updateStockAgentSchedule_newAgents stock agentName []))"
    then have "b \<in> set (updateStockAgentSchedule_newAgents stock agentName [])"
      and "agent_name b = agentName"
      by simp_all
    then have "schedule b = []" by (rule updated_binding_schedule)
    then show "resolved_schedule (resolve agentDefault (Some b) runtimeOverride)
                  = default_schedule agentDefault"
      using assms by (simp add: resolve_def)
  qed
qed

theorem resolve_schedule_precedence_witness:
  "override_schedule noOverride = None
   \<and> resolved_schedule (resolve intradayAgent (Some intradayBinding) noOverride)
       = js ''*/5 9-15 * * 1-5''
   \<and> resolved_schedule (resolve intradayAgent (Some dailyBinding) noOverride)
       = js ''0 18 * * 1-5''
   \<and> filter (\<lambda>b. agent_name b = js ''daily_report'')
         (updateStockAgentSchedule_newAgents stock0 (js ''daily_report'')
            (scheduleOfSelect (js ''__default__'')))
       = [dailyBinding\<lparr>schedule := []\<rparr>]
   \<and> resolved_schedule
         (resolve intradayAgent (Some (dailyBinding\<lparr>schedule := []\<rparr>)) noOverride)
       = js ''*/5 9-15 * * 1-5''"
proof -
  have h: "override_schedule noOverride = None" by (simp add: noOverride_def)
  have e1: "schedule intradayBinding = []" by (simp add: intradayBinding_def)
  have e2: "schedule dailyBinding = js ''0 18 * * 1-5''" by (simp add: dailyBinding_def)
  have e3: "js ''0 18 * * 1-5'' \<noteq> []" by (simp add: js_def)
  have e4: "default_schedule intradayAgent = js ''*/5 9-15 * * 1-5''"
    by (simp add: intradayAgent_def)
  have u: "filter (\<lambda>b. agent_name b = js ''daily_report'')
         (updateStockAgentSchedule_newAgents stock0 (js ''daily_report'')
            (scheduleOfSelect (js ''__default__'')))
       = [dailyBinding\<lparr>schedule := []\<rparr>]"
    by (simp add: updateStockAgentSchedule_newAgents_def scheduleOfSelect_def currentAgents_def
        stock0_def dailyBinding_def intradayBinding_def js_def)
  note r1 = resolve_schedule_precedence[OF h, of intradayAgent intradayBinding
      "js ''daily_report''" stock0]
  note r2 = resolve_schedule_precedence[OF h, of intradayAgent dailyBinding
      "js ''daily_report''" stock0]
  from r1 have "resolved_schedule (resolve intradayAgent (Some intradayBinding) noOverride)
      = (if schedule intradayBinding = [] then default_schedule intradayAgent
         else schedule intradayBinding)"
    by (rule conjunct1)
  then have a: "resolved_schedule (resolve intradayAgent (Some intradayBinding) noOverride)
       = js ''*/5 9-15 * * 1-5''"
    by (simp add: e1 e4)
  from r2 have "resolved_schedule (resolve intradayAgent (Some dailyBinding) noOverride)
      = (if schedule dailyBinding = [] then default_schedule intradayAgent
         else schedule dailyBinding)"
    by (rule conjunct1)
  then have b: "resolved_schedule (resolve intradayAgent (Some dailyBinding) noOverride)
       = js ''0 18 * * 1-5''"
    using e3 by (simp add: e2)
  from r1 have "list_all
      (\<lambda>b. resolved_schedule (resolve intradayAgent (Some b) noOverride)
             = default_schedule intradayAgent)
      (filter (\<lambda>b. agent_name b = js ''daily_report'')
         (updateStockAgentSchedule_newAgents stock0 (js ''daily_report'')
            (scheduleOfSelect (js ''__default__''))))"
    by (rule conjunct2)
  then have c: "resolved_schedule
         (resolve intradayAgent (Some (dailyBinding\<lparr>schedule := []\<rparr>)) noOverride)
       = js ''*/5 9-15 * * 1-5''"
    unfolding u by (simp add: e4)
  from h a b u c show ?thesis by (intro conjI)
qed

subsection \<open>DataSourceRouter\<close>

lemma attempted_subset: "set (attempted call req bs) \<subseteq> set bs"
  by (induction bs) (auto split: sum.splits)

lemma attempted_prefix: "\<exists>rest. bs = attempted call req bs @ rest"
  by (induction bs) (auto split: sum.splits)

lemma attempted_earlier_failed:
  "sorted (map key bs) \<Longrightarrow> b \<in> set (attempted call req bs) \<Longrightarrow> b' \<in> set bs
    \<Longrightarrow> key b' < key b \<Longrightarrow> failed call req b' \<and> b' \<in> set (attempted call req bs)"
proof (induction bs)
  case Nil
  then show ?case by simp
next
  case (Cons c bs)
  have le: "\<And>x. x \<in> set (c # bs) \<Longrightarrow> key c \<le> key x"
    using Cons.prems(1) by auto
  show ?case
  proof (cases "outcome (call c req)")
    case (Inr items)
    with Cons.prems(2) have "b = c" by simp
    with le[OF Cons.prems(3)] Cons.prems(4) show ?thesis by simp
  next
    case (Inl f)
    show ?thesis
    proof (cases "b = c")
      case True
      with le[OF Cons.prems(3)] Cons.prems(4) show ?thesis by simp
    next
      case False
      with Cons.prems(2) Inl have b: "b \<in> set (attempted call req bs)" by simp
      show ?thesis
      proof (cases "b' = c")
        case True
        with Inl show ?thesis by (simp add: failed_def)
      next
        case False
        with Cons.prems(3) have "b' \<in> set bs" by simp
        with Cons.IH b Cons.prems(1,4) Inl show ?thesis by simp
      qed
    qed
  qed
qed

lemma tryProviders_starts:
  "map log_source_name (filter (\<lambda>e. action e = start) (snd (tryProviders call req bs)))
     = map source_name (attempted call req bs)"
proof (induction bs)
  case Nil
  show ?case by simp
next
  case (Cons b bs)
  show ?case
  proof (cases "outcome (call b req)")
    case (Inl f)
    obtain r lg where "tryProviders call req bs = (r, lg)"
      by (cases "tryProviders call req bs")
    with Cons.IH Inl show ?thesis by (simp add: logEntry_def)
  next
    case (Inr items)
    then show ?thesis by (simp add: logEntry_def)
  qed
qed

lemma set_candidates:
  "set (candidates ty bs) = {b \<in> set bs. source_enabled b \<and> source_type b = ty}"
  by (auto simp: candidates_def)

lemma sorted_candidates:
  "sorted (map (\<lambda>b. (priority b, source_id b)) (candidates ty bs))"
  by (simp add: candidates_def)

lemma filter_key_single:
  "distinct zs \<Longrightarrow> k \<in> set zs \<Longrightarrow> inj_on f (set zs) \<Longrightarrow> filter (\<lambda>x. f k = f x) zs = [k]"
proof (induction zs)
  case Nil
  then show ?case by simp
next
  case (Cons z zs)
  have inj: "inj_on f (set zs)" using Cons.prems(3) by (simp add: inj_on_def)
  show ?case
  proof (cases "k = z")
    case True
    have "\<And>x. x \<in> set zs \<Longrightarrow> f z \<noteq> f x"
      using Cons.prems(1,3) by (auto simp: inj_on_def)
    then have "filter (\<lambda>x. f z = f x) zs = []" by (simp add: filter_empty_conv)
    with True show ?thesis by simp
  next
    case False
    with Cons.prems(2) have kin: "k \<in> set zs" by simp
    have "f k \<noteq> f z" using Cons.prems(3) False kin by (auto simp: inj_on_def)
    moreover have "filter (\<lambda>x. f k = f x) zs = [k]"
      using Cons.IH Cons.prems(1) kin inj by simp
    ultimately show ?thesis by simp
  qed
qed

lemma candidates_permutation:
  assumes "mset bs' = mset bs" and "distinct (map source_id bs)"
  shows "candidates ty bs' = candidates ty bs"
proof -
  let ?P = "\<lambda>b. source_enabled b \<and> source_type b = ty"
  let ?k = "\<lambda>b. (priority b, source_id b)"
  let ?xs = "filter ?P bs" and ?ys = "filter ?P bs'"
  have m: "mset ?xs = mset ?ys" using assms(1) by simp
  then have s: "set ?xs = set ?ys" by (rule mset_eq_setD)
  have "inj_on source_id (set bs)" "distinct bs"
    using assms(2) by (simp_all add: distinct_map)
  then have dx: "distinct ?xs" and ix: "inj_on ?k (set ?xs)"
    by (simp_all add: inj_on_def)
  have dy: "distinct (sort_key ?k ?ys)"
    using dx m by (metis distinct_sort mset_eq_imp_distinct_iff)
  have iy: "inj_on ?k (set (sort_key ?k ?ys))" using ix s by simp
  have "sort_key ?k ?xs = sort_key ?k ?ys"
  proof (rule properties_for_sort_key)
    show "mset (sort_key ?k ?ys) = mset ?xs" using m by simp
    show "sorted (map ?k (sort_key ?k ?ys))" by simp
  next
    fix k assume kin: "k \<in> set (sort_key ?k ?ys)"
    then have kx: "k \<in> set ?xs" using s by simp
    have "filter (\<lambda>x. ?k k = ?k x) (sort_key ?k ?ys) = [k]"
      using dy kin iy by (rule filter_key_single)
    moreover have "filter (\<lambda>x. ?k k = ?k x) ?xs = [k]"
      using dx kx ix by (rule filter_key_single)
    ultimately show
      "filter (\<lambda>x. ?k k = ?k x) (sort_key ?k ?ys) = filter (\<lambda>x. ?k k = ?k x) ?xs"
      by simp
  qed
  then show ?thesis by (simp add: candidates_def)
qed

lemma candidates_example:
  "candidates (js ''quote'') [bindingA, bindingB, bindingC] = [bindingB, bindingC]"
  by (simp add: candidates_def bindingA_def bindingB_def bindingC_def)

text \<open>
  Claim C4. For every requested type, every list of bindings and every behaviour of the
  providers: the bindings the router invokes are enabled bindings of that type (a
  disabled binding is never invoked); they are an initial part of the candidates, which
  are sorted by priority and then by identifier; a binding is invoked only if every
  enabled binding of the type that comes before it in that order was invoked and
  failed; the \<open>start\<close> entries of the log name the invoked bindings in their order; and
  the order does not depend on how the bindings are listed, as long as their
  identifiers are distinct. For the bindings A (priority 1, disabled), B (priority 2)
  and C (priority 3) the router invokes B, and then C exactly when B failed.
\<close>

theorem router_trial_order:
  "set (trialOrder call bindings ty req)
     \<subseteq> {b \<in> set bindings. source_enabled b \<and> source_type b = ty}
   \<and> (\<exists>rest. candidates ty bindings = trialOrder call bindings ty req @ rest)
   \<and> sorted (map (\<lambda>b. (priority b, source_id b)) (candidates ty bindings))
   \<and> (\<forall>b \<in> set (trialOrder call bindings ty req). \<forall>b' \<in> set bindings.
         source_enabled b' \<and> source_type b' = ty
         \<and> (priority b', source_id b') < (priority b, source_id b)
         \<longrightarrow> failed call req b' \<and> b' \<in> set (trialOrder call bindings ty req))
   \<and> map log_source_name
         (filter (\<lambda>e. action e = start) (snd (fetch call bindings ty req)))
       = map source_name (trialOrder call bindings ty req)
   \<and> (mset bindings' = mset bindings \<and> distinct (map source_id bindings) \<longrightarrow>
         trialOrder call bindings' ty req = trialOrder call bindings ty req
         \<and> fetch call bindings' ty req = fetch call bindings ty req)
   \<and> trialOrder call [bindingA, bindingB, bindingC] (js ''quote'') req
       = (if failed call req bindingB then [bindingB, bindingC] else [bindingB])"
proof (intro conjI)
  show "set (trialOrder call bindings ty req)
     \<subseteq> {b \<in> set bindings. source_enabled b \<and> source_type b = ty}"
    unfolding trialOrder_def using attempted_subset[of call req "candidates ty bindings"]
    by (simp add: set_candidates)
  show "\<exists>rest. candidates ty bindings = trialOrder call bindings ty req @ rest"
    unfolding trialOrder_def by (rule attempted_prefix)
  show "sorted (map (\<lambda>b. (priority b, source_id b)) (candidates ty bindings))"
    by (rule sorted_candidates)
  show "\<forall>b \<in> set (trialOrder call bindings ty req). \<forall>b' \<in> set bindings.
         source_enabled b' \<and> source_type b' = ty
         \<and> (priority b', source_id b') < (priority b, source_id b)
         \<longrightarrow> failed call req b' \<and> b' \<in> set (trialOrder call bindings ty req)"
  proof (intro ballI impI)
    fix b b'
    assume b: "b \<in> set (trialOrder call bindings ty req)" and "b' \<in> set bindings"
      and h: "source_enabled b' \<and> source_type b' = ty
         \<and> (priority b', source_id b') < (priority b, source_id b)"
    then have "b' \<in> set (candidates ty bindings)" by (simp add: set_candidates)
    with attempted_earlier_failed[OF sorted_candidates[of ty bindings], of b call req b'] b h
    show "failed call req b' \<and> b' \<in> set (trialOrder call bindings ty req)"
      by (simp add: trialOrder_def)
  qed
  show "map log_source_name
         (filter (\<lambda>e. action e = start) (snd (fetch call bindings ty req)))
       = map source_name (trialOrder call bindings ty req)"
    by (simp add: fetch_def trialOrder_def tryProviders_starts)
  show "mset bindings' = mset bindings \<and> distinct (map source_id bindings) \<longrightarrow>
         trialOrder call bindings' ty req = trialOrder call bindings ty req
         \<and> fetch call bindings' ty req = fetch call bindings ty req"
    using candidates_permutation[of bindings' bindings ty]
    by (simp add: trialOrder_def fetch_def)
  show "trialOrder call [bindingA, bindingB, bindingC] (js ''quote'') req
       = (if failed call req bindingB then [bindingB, bindingC] else [bindingB])"
    by (simp add: trialOrder_def candidates_example failed_def split: sum.splits)
qed

theorem router_trial_order_witness:
  "mset [bindingB, bindingC, bindingA] = mset [bindingC, bindingA, bindingB]
   \<and> distinct (map source_id [bindingC, bindingA, bindingB])
   \<and> trialOrder failsForB [bindingC, bindingA, bindingB] (js ''quote'') [js ''601127'']
       = [bindingB, bindingC]
   \<and> trialOrder failsForB [bindingB, bindingC, bindingA] (js ''quote'') [js ''601127'']
       = [bindingB, bindingC]
   \<and> source_enabled bindingB \<and> source_type bindingB = js ''quote''
   \<and> (priority bindingB, source_id bindingB) < (priority bindingC, source_id bindingC)
   \<and> failed failsForB [js ''601127''] bindingB"
proof -
  have m: "mset [bindingB, bindingC, bindingA] = mset [bindingC, bindingA, bindingB]"
    by simp
  have d: "distinct (map source_id [bindingC, bindingA, bindingB])"
    by (simp add: bindingA_def bindingB_def bindingC_def)
  have t: "trialOrder failsForB [bindingC, bindingA, bindingB] (js ''quote'') [js ''601127'']
       = [bindingB, bindingC]"
    by (simp add: trialOrder_def candidates_def failsForB_def bindingA_def bindingB_def
        bindingC_def)
  have c: "bindingC \<in> set (trialOrder failsForB [bindingC, bindingA, bindingB] (js ''quote'')
      [js ''601127''])"
    by (simp add: t)
  have k: "source_enabled bindingB \<and> source_type bindingB = js ''quote''
      \<and> (priority bindingB, source_id bindingB) < (priority bindingC, source_id bindingC)"
    by (simp add: bindingB_def bindingC_def)
  note r = router_trial_order[of failsForB "[bindingC, bindingA, bindingB]" "js ''quote''"
      "[js ''601127'']" "[bindingB, bindingC, bindingA]"]
  from r have p: "mset [bindingB, bindingC, bindingA] = mset [bindingC, bindingA, bindingB]
      \<and> distinct (map source_id [bindingC, bindingA, bindingB]) \<longrightarrow>
      trialOrder failsForB [bindingB, bindingC, bindingA] (js ''quote'') [js ''601127'']
        = trialOrder failsForB [bindingC, bindingA, bindingB] (js ''quote'') [js ''601127'']
      \<and> fetch failsForB [bindingB, bindingC, bindingA] (js ''quote'') [js ''601127'']
        = fetch failsForB [bindingC, bindingA, bindingB] (js ''quote'') [js ''601127'']"
    by (elim conjE) assumption
  from r have q: "\<forall>b \<in> set (trialOrder failsForB [bindingC, bindingA, bindingB] (js ''quote'')
        [js ''601127'']). \<forall>b' \<in> set [bindingC, bindingA, bindingB].
         source_enabled b' \<and> source_type b' = js ''quote''
         \<and> (priority b', source_id b') < (priority b, source_id b)
         \<longrightarrow> failed failsForB [js ''601127''] b'
           \<and> b' \<in> set (trialOrder failsForB [bindingC, bindingA, bindingB] (js ''quote'')
               [js ''601127''])"
    by (elim conjE) assumption
  from p m d have "trialOrder failsForB [bindingB, bindingC, bindingA] (js ''quote'')
      [js ''601127'']
      = trialOrder failsForB [bindingC, bindingA, bindingB] (js ''quote'') [js ''601127'']"
    by blast
  with t have t': "trialOrder failsForB [bindingB, bindingC, bindingA] (js ''quote'')
      [js ''601127''] = [bindingB, bindingC]"
    by simp
  have "bindingB \<in> set [bindingC, bindingA, bindingB]" by simp
  with q c k have f: "failed failsForB [js ''601127''] bindingB"
    by blast
  from m d t t' k f show ?thesis by blast
qed

end
